theory Spec2Isabelle
  imports Complex_Main
begin

section \<open>JavaScript values\<close>

text \<open>
  The widget and the API pass JSON-shaped data around: theme configs, request bodies,
  response bodies. A value is one of the JavaScript primitives, an array or an object.
  An object is an association list in property insertion order (the order that
  \<^verbatim>\<open>Object.entries\<close> and \<^verbatim>\<open>JSON.stringify\<close> walk); its keys are
  pairwise distinct and are not integer-like (all keys the code uses are identifiers).
  A number value is an exact integer: a JSON number with a fraction is outside the model
  (the result of \<^verbatim>\<open>Number(s)\<close> on a string, which may be a fraction, has a type of its
  own below). A character of a string is a UTF-16 code unit below 256, read as the Unicode
  character of that number; text with other characters is outside the model.
\<close>

datatype jsval =
    JUndef
  | JNull
  | JBool bool
  | JNum int
  | JStr string
  | JArr "jsval list"
  | JObj "(string \<times> jsval) list"

text \<open>Truthiness, as tested by \<^verbatim>\<open>if (v)\<close>, \<^verbatim>\<open>!v\<close>, \<^verbatim>\<open>a || b\<close> and \<^verbatim>\<open>a && b\<close>.\<close>

fun truthy :: "jsval \<Rightarrow> bool" where
  "truthy JUndef = False"
| "truthy JNull = False"
| "truthy (JBool b) = b"
| "truthy (JNum n) = (n \<noteq> 0)"
| "truthy (JStr s) = (s \<noteq> [])"
| "truthy (JArr xs) = True"
| "truthy (JObj kvs) = True"

definition js_or :: "jsval \<Rightarrow> jsval \<Rightarrow> jsval" where
  "js_or a b = (if truthy a then a else b)"

text \<open>
  Property read \<^verbatim>\<open>v.k\<close> on a value that is not null or undefined: an own property of
  an object, undefined otherwise. Every read in the modelled code either follows a
  truthiness guard or uses \<^verbatim>\<open>?.\<close>, so a read on null or undefined (a TypeError) is
  never reached; it is given the value of \<^verbatim>\<open>v?.k\<close>.
\<close>

fun get_prop :: "jsval \<Rightarrow> string \<Rightarrow> jsval" where
  "get_prop (JObj kvs) k = (case map_of kvs k of Some v \<Rightarrow> v | None \<Rightarrow> JUndef)"
| "get_prop v k = JUndef"

text \<open>Assignment \<^verbatim>\<open>obj[k] = v\<close>: an existing key keeps its position, a new key goes last.\<close>

fun obj_set :: "(string \<times> jsval) list \<Rightarrow> string \<Rightarrow> jsval \<Rightarrow> (string \<times> jsval) list" where
  "obj_set [] k v = [(k, v)]"
| "obj_set ((k', v') # kvs) k v =
     (if k' = k then (k, v) # kvs else (k', v') # obj_set kvs k v)"

text \<open>An object literal or a spread \<^verbatim>\<open>{...a, ...b, k: v}\<close> assigns its entries from left to right.\<close>

definition obj_assign :: "(string \<times> jsval) list \<Rightarrow> (string \<times> jsval) list \<Rightarrow> (string \<times> jsval) list" where
  "obj_assign base kvs = foldl (\<lambda>acc (k, v). obj_set acc k v) base kvs"

subsection \<open>Strings\<close>

text \<open>
  The white space and line terminators that \<^verbatim>\<open>String.prototype.trim\<close> strips, among the
  characters below 256: tab, line feed, vertical tab, form feed, carriage return, space and
  the no-break space U+00A0.
\<close>

definition is_ws :: "char \<Rightarrow> bool" where
  "is_ws c = (c \<in> set [CHR 0x20, CHR 0x09, CHR 0x0A, CHR 0x0B, CHR 0x0C, CHR 0x0D, CHR 0xA0])"

definition js_trim :: "string \<Rightarrow> string" where
  "js_trim s = rev (dropWhile is_ws (rev (dropWhile is_ws s)))"

definition starts_with :: "string \<Rightarrow> string \<Rightarrow> bool" where
  "starts_with s p = (take (length p) s = p)"

text \<open>\<^verbatim>\<open>s.includes(p)\<close>\<close>

fun str_includes :: "string \<Rightarrow> string \<Rightarrow> bool" where
  "str_includes [] p = (p = [])"
| "str_includes (c # cs) p = (starts_with (c # cs) p \<or> str_includes cs p)"


fun join :: "string \<Rightarrow> string list \<Rightarrow> string" where
  "join sep [] = []"
| "join sep [x] = x"
| "join sep (x # y # ys) = x @ sep @ join sep (y # ys)"

definition digit_char :: "nat \<Rightarrow> char" where
  "digit_char n = ''0123456789'' ! n"

fun show_nat :: "nat \<Rightarrow> string" where
  "show_nat n = (if n < 10 then [digit_char n] else show_nat (n div 10) @ [digit_char (n mod 10)])"

declare show_nat.simps [simp del]

definition show_int :: "int \<Rightarrow> string" where
  "show_int n = (if n < 0 then CHR ''-'' # show_nat (nat (- n)) else show_nat (nat n))"

text \<open>\<^verbatim>\<open>String(v)\<close>, which a template literal applies to each hole.\<close>

fun to_string :: "jsval \<Rightarrow> string" where
  "to_string JUndef = ''undefined''"
| "to_string JNull = ''null''"
| "to_string (JBool b) = (if b then ''true'' else ''false'')"
| "to_string (JNum n) = show_int n"
| "to_string (JStr s) = s"
| "to_string (JArr xs) =
     join '','' (map (\<lambda>x. if x = JUndef \<or> x = JNull then [] else to_string x) xs)"
| "to_string (JObj kvs) = ''[object Object]''"

section \<open>API: the shared-secret check of the widget-config update route\<close>

text \<open>
  \<^verbatim>\<open>apps/api/src/middleware/auth.js\<close>, \<^verbatim>\<open>requireApiKey\<close>. The request contributes its
  \<^verbatim>\<open>x-api-key\<close> and \<^verbatim>\<open>authorization\<close> headers (absent or a string), the process
  environment contributes \<^verbatim>\<open>WIDGET_CONFIG_API_KEY\<close> and whether \<^verbatim>\<open>NODE_ENV\<close> is
  \<^verbatim>\<open>production\<close>.
\<close>

record response =
  status :: nat
  body :: jsval














section \<open>Widget: fetching the theme config\<close>

text \<open>
  \<^verbatim>\<open>apps/widget/src/widget.jsx\<close>, \<^verbatim>\<open>fetchWidgetTheme\<close> and its module-level
  \<^verbatim>\<open>themeCache\<close>. The network is the environment: one call meets one outcome of
  \<^verbatim>\<open>fetch\<close> (used only when the cache does not answer), and reads the clock when it
  checks the cache, when it builds the request and when it stores the result.
\<close>

record cache_entry =
  data :: jsval
  timestamp :: int

type_synonym theme_cache = "string \<Rightarrow> cache_entry option"

definition CACHE_DURATION_MS :: int where
  "CACHE_DURATION_MS = 1 * 1000"

definition CONFIG_POLL_INTERVAL_MS :: int where
  "CONFIG_POLL_INTERVAL_MS = 3 * 1000"

definition clearThemeCache :: "theme_cache \<Rightarrow> theme_cache" where
  "clearThemeCache c = (\<lambda>k. None)"

text \<open>
  What \<^verbatim>\<open>await fetch(...)\<close> followed by \<^verbatim>\<open>await response.json()\<close> can do: reject
  (network error), reject with an AbortError (the 5 second timeout), or deliver a status
  code with a body that parses as JSON (\<open>Some\<close>) or does not (\<open>None\<close>).
\<close>

datatype fetch_outcome =
    NetworkError
  | AbortError
  | HttpResponse nat "jsval option"

definition response_ok :: "nat \<Rightarrow> bool" where
  "response_ok st = (200 \<le> st \<and> st \<le> 299)"

record fetch_env =
  development :: bool
  url_cache_bust :: bool
  now_check :: int
  now_request :: int
  now_store :: int
  outcome :: fetch_outcome

record fetch_result =
  fr_value :: jsval
  fr_cache :: theme_cache
  fr_request :: "string option"

definition hex_char :: "nat \<Rightarrow> char" where
  "hex_char n = ''0123456789ABCDEF'' ! n"

definition uri_unreserved :: "char \<Rightarrow> bool" where
  "uri_unreserved c =
     (c \<in> set ''ABCDEFGHIJKLMNOPQRSTUVWXYZabcdefghijklmnopqrstuvwxyz0123456789-_.!~*'' \<or>
      c = CHR 0x27 \<or> c = CHR ''('' \<or> c = CHR '')'')"

definition percent_byte :: "nat \<Rightarrow> string" where
  "percent_byte b = [CHR ''%'', hex_char (b div 16), hex_char (b mod 16)]"

text \<open>A character from 128 on is escaped as the two bytes of its UTF-8 encoding.\<close>

definition encodeURIComponent :: "string \<Rightarrow> string" where
  "encodeURIComponent s =
     concat (map (\<lambda>c. if uri_unreserved c then [c]
       else if (of_char c :: nat) < 128 then percent_byte (of_char c)
       else percent_byte (192 + of_char c div 64) @ percent_byte (128 + of_char c mod 64)) s)"

definition widget_config_url :: "jsval \<Rightarrow> jsval \<Rightarrow> int \<Rightarrow> string" where
  "widget_config_url apiBaseUrl projectId t =
     to_string apiBaseUrl @ ''/api/widget-config/'' @ encodeURIComponent (to_string projectId)
       @ ''?t='' @ show_int t @ ''&_='' @ show_int t"

text \<open>The object literal that replaces a snake_case response (lines 107 to 121).\<close>

definition camel_of_snake :: "jsval \<Rightarrow> jsval" where
  "camel_of_snake d = JObj (obj_assign []
     [(''projectId'', js_or (get_prop d ''project_id'') (get_prop d ''projectId'')),
      (''agentName'', js_or (get_prop d ''agent_name'') (get_prop d ''agentName'')),
      (''avatarUrl'', js_or (get_prop d ''avatar_url'') (get_prop d ''avatarUrl'')),
      (''primaryColor'', js_or (get_prop d ''primary_color'') (get_prop d ''primaryColor'')),
      (''followupMessage'', js_or (get_prop d ''followup_message'') (get_prop d ''followupMessage'')),
      (''bhkPrompt'', js_or (get_prop d ''bhk_prompt'') (get_prop d ''bhkPrompt'')),
      (''inventoryMessage'', js_or (get_prop d ''inventory_message'') (get_prop d ''inventoryMessage'')),
      (''phonePrompt'', js_or (get_prop d ''phone_prompt'') (get_prop d ''phonePrompt'')),
      (''thankYouMessage'', js_or (get_prop d ''thank_you_message'') (get_prop d ''thankYouMessage'')),
      (''bubblePosition'', js_or (get_prop d ''bubble_position'') (get_prop d ''bubblePosition'')),
      (''autoOpenDelayMs'', js_or (get_prop d ''auto_open_delay_ms'') (get_prop d ''autoOpenDelayMs'')),
      (''welcomeMessage'', js_or (get_prop d ''welcome_message'') (get_prop d ''welcomeMessage'')),
      (''propertyInfo'',
         js_or (js_or (get_prop d ''property_info'') (get_prop d ''propertyInfo'')) (JObj []))])"

text \<open>\<^verbatim>\<open>data && data.agent_name && !data.agentName\<close>\<close>

definition needs_conversion :: "jsval \<Rightarrow> bool" where
  "needs_conversion d =
     (truthy d \<and> truthy (get_prop d ''agent_name'') \<and> \<not> truthy (get_prop d ''agentName''))"

definition normalize_response :: "jsval \<Rightarrow> jsval" where
  "normalize_response d = (if needs_conversion d then camel_of_snake d else d)"

definition cache_key :: "jsval \<Rightarrow> jsval \<Rightarrow> string" where
  "cache_key apiBaseUrl projectId = to_string apiBaseUrl @ '':'' @ to_string projectId"

text \<open>
  The \<^verbatim>\<open>try\<close> block, up to the response body: \<open>None\<close> is a jump to the
  \<^verbatim>\<open>catch\<close> branch.
\<close>

definition fetch_attempt :: "fetch_outcome \<Rightarrow> jsval option" where
  "fetch_attempt oc =
     (case oc of
        NetworkError \<Rightarrow> None
      | AbortError \<Rightarrow> None
      | HttpResponse st b \<Rightarrow>
          (if \<not> response_ok st then None
           else case b of None \<Rightarrow> None | Some d \<Rightarrow> Some (normalize_response d)))"

text \<open>
  In a development build the function logs \<^verbatim>\<open>data.agentName\<close> after it has stored the
  cache entry; on a body that is \<^verbatim>\<open>null\<close> that read throws into the \<^verbatim>\<open>catch\<close>.
\<close>

definition cache_lookup :: "fetch_env \<Rightarrow> theme_cache \<Rightarrow> string \<Rightarrow> bool \<Rightarrow> jsval option" where
  "cache_lookup env cache cacheKey cacheBust =
     (if cacheBust then None
      else case cache cacheKey of
             None \<Rightarrow> None
           | Some e \<Rightarrow>
               if now_check env - timestamp e < CACHE_DURATION_MS then Some (data e) else None)"

definition fetchWidgetTheme ::
  "fetch_env \<Rightarrow> theme_cache \<Rightarrow> jsval \<Rightarrow> jsval \<Rightarrow> bool \<Rightarrow> fetch_result" where
  "fetchWidgetTheme env cache apiBaseUrl projectId forceRefresh =
     (let cacheBust = (url_cache_bust env \<or> forceRefresh);
          cacheKey = cache_key apiBaseUrl projectId
      in case cache_lookup env cache cacheKey cacheBust of
           Some d \<Rightarrow> \<lparr>fr_value = d, fr_cache = cache, fr_request = None\<rparr>
         | None \<Rightarrow>
             let cache1 = (if cacheBust then cache(cacheKey := None) else cache);
                 url = widget_config_url apiBaseUrl projectId (now_request env)
             in case fetch_attempt (outcome env) of
                  Some d \<Rightarrow>
                    \<lparr>fr_value = (if development env \<and> (d = JNull \<or> d = JUndef) then JObj [] else d),
                     fr_cache = cache1(cacheKey \<mapsto> \<lparr>data = d, timestamp = now_store env\<rparr>),
                     fr_request = Some url\<rparr>
                | None \<Rightarrow> \<lparr>fr_value = JObj [], fr_cache = cache1, fr_request = Some url\<rparr>)"

text \<open>The outcomes the spec calls failures: network error, timeout, non-2xx status, malformed body.\<close>

definition is_failure :: "fetch_outcome \<Rightarrow> bool" where
  "is_failure oc =
     (case oc of
        NetworkError \<Rightarrow> True
      | AbortError \<Rightarrow> True
      | HttpResponse st b \<Rightarrow> \<not> response_ok st \<or> b = None)"

definition canonical_keys :: "string list" where
  "canonical_keys =
     [''projectId'', ''agentName'', ''avatarUrl'', ''primaryColor'', ''followupMessage'',
      ''bhkPrompt'', ''inventoryMessage'', ''phonePrompt'', ''thankYouMessage'',
      ''bubblePosition'', ''autoOpenDelayMs'', ''welcomeMessage'', ''propertyInfo'']"

text \<open>The snake_case spelling the conversion reads for each canonical field but \<^verbatim>\<open>propertyInfo\<close>.\<close>

definition snake_camel_fields :: "(string \<times> string) list" where
  "snake_camel_fields =
     [(''project_id'', ''projectId''), (''agent_name'', ''agentName''),
      (''avatar_url'', ''avatarUrl''), (''primary_color'', ''primaryColor''),
      (''followup_message'', ''followupMessage''), (''bhk_prompt'', ''bhkPrompt''),
      (''inventory_message'', ''inventoryMessage''), (''phone_prompt'', ''phonePrompt''),
      (''thank_you_message'', ''thankYouMessage''), (''bubble_position'', ''bubblePosition''),
      (''auto_open_delay_ms'', ''autoOpenDelayMs''), (''welcome_message'', ''welcomeMessage'')]"

text \<open>\<^verbatim>\<open>Object.keys(v)\<close> and the entries a spread \<^verbatim>\<open>...v\<close> copies, for \<open>v\<close> not null or undefined.\<close>

fun own_entries :: "jsval \<Rightarrow> (string \<times> jsval) list" where
  "own_entries (JObj kvs) = kvs"
| "own_entries (JArr xs) = zip (map show_nat [0..<length xs]) xs"
| "own_entries (JStr s) = zip (map show_nat [0..<length s]) (map (\<lambda>c. JStr [c]) s)"
| "own_entries v = []"

definition object_keys :: "jsval \<Rightarrow> string list" where
  "object_keys v = map fst (own_entries v)"

section \<open>Widget: what \<^verbatim>\<open>init\<close> computes before it mounts\<close>

text \<open>
  The page (\<^verbatim>\<open>window.location\<close>, the \<^verbatim>\<open>HOMESFY_WIDGET_API_BASE_URL\<close> global), the two
  build-time variables, and the options of one \<^verbatim>\<open>init\<close> call together with the
  \<^verbatim>\<open>data-*\<close> attributes of the script element it resolves
  (\<^verbatim>\<open>options.element || document.currentScript\<close>). Option and attribute values are
  strings when present.
\<close>

record window_env =
  protocol :: string
  hostname :: string
  search_cache_bust :: bool
  HOMESFY_WIDGET_API_BASE_URL :: jsval
  rawEnvApiBaseUrl :: jsval
  envDefaultProjectId :: jsval

record init_options =
  opt_projectId :: jsval
  opt_apiBaseUrl :: jsval
  opt_microsite :: jsval
  opt_theme :: jsval
  opt_target :: "nat option"
  ds_project :: jsval
  ds_projectId :: jsval
  ds_apiBaseUrl :: jsval
  ds_microsite :: jsval

definition js_includes :: "jsval \<Rightarrow> string \<Rightarrow> bool" where
  "js_includes v p = (case v of JStr s \<Rightarrow> str_includes s p | _ \<Rightarrow> False)"

text \<open>\<^verbatim>\<open>url && (url.includes('localhost') || url.includes('127.0.0.1'))\<close>\<close>

definition mentions_localhost :: "jsval \<Rightarrow> bool" where
  "mentions_localhost url =
     (truthy url \<and> (js_includes url ''localhost'' \<or> js_includes url ''127.0.0.1''))"

definition envApiBaseUrl :: "window_env \<Rightarrow> jsval" where
  "envApiBaseUrl w =
     (if \<not> truthy (rawEnvApiBaseUrl w) then JUndef
      else if protocol w = ''https:'' \<and> mentions_localhost (rawEnvApiBaseUrl w) then JUndef
      else rawEnvApiBaseUrl w)"

definition ends_with :: "string \<Rightarrow> string \<Rightarrow> bool" where
  "ends_with s p = (length p \<le> length s \<and> drop (length s - length p) s = p)"

text \<open>\<^verbatim>\<open>.replace(/\/api\/?$/, '')\<close> and then \<^verbatim>\<open>.replace(/\/$/, '')\<close>\<close>

definition strip_api_suffix :: "string \<Rightarrow> string" where
  "strip_api_suffix s =
     (if ends_with s ''/api/'' then take (length s - 5) s
      else if ends_with s ''/api'' then take (length s - 4) s
      else s)"

definition strip_trailing_slash :: "string \<Rightarrow> string" where
  "strip_trailing_slash s = (if ends_with s ''/'' then take (length s - 1) s else s)"

definition normalize_api_base_url :: "jsval \<Rightarrow> jsval" where
  "normalize_api_base_url url =
     (case url of
        JStr s \<Rightarrow> if s \<noteq> [] then JStr (strip_trailing_slash (strip_api_suffix s)) else url
      | _ \<Rightarrow> url)"

text \<open>The URL the options, the script tag, the build and the page configure (line 552).\<close>

definition configured_api_base_url :: "window_env \<Rightarrow> init_options \<Rightarrow> jsval" where
  "configured_api_base_url w opts =
     js_or (opt_apiBaseUrl opts)
       (js_or (ds_apiBaseUrl opts)
         (js_or (envApiBaseUrl w) (HOMESFY_WIDGET_API_BASE_URL w)))"

definition isLocalDev :: "window_env \<Rightarrow> bool" where
  "isLocalDev w =
     (hostname w = ''localhost'' \<or> hostname w = ''127.0.0.1'' \<or>
      str_includes (hostname w) ''localhost'' \<or> hostname w = [])"

definition isActuallyLocalhost :: "window_env \<Rightarrow> bool" where
  "isActuallyLocalhost w =
     (hostname w = ''localhost'' \<or> hostname w = ''127.0.0.1'' \<or> hostname w = [])"

text \<open>Lines 552 to 604: the API base URL that \<^verbatim>\<open>init\<close> goes on with.\<close>

definition resolve_api_base_url :: "window_env \<Rightarrow> init_options \<Rightarrow> jsval" where
  "resolve_api_base_url w opts =
     (let a0 = configured_api_base_url w opts;
          a1 = (if \<not> truthy a0
                then (if isLocalDev w \<and> protocol w = ''http:''
                      then JStr ''http://localhost:4000'' else a0)
                else a0);
          a2 = (if \<not> isActuallyLocalhost w \<and> mentions_localhost a1 then JNull else a1);
          a3 = (if protocol w = ''https:'' \<and> mentions_localhost a2 then JNull else a2)
      in normalize_api_base_url a3)"

definition resolve_project_id :: "window_env \<Rightarrow> init_options \<Rightarrow> jsval" where
  "resolve_project_id w opts =
     js_or (opt_projectId opts)
       (js_or (ds_project opts)
         (js_or (ds_projectId opts)
           (js_or (envDefaultProjectId w) (JStr ''default''))))"

definition resolve_microsite :: "window_env \<Rightarrow> init_options \<Rightarrow> jsval" where
  "resolve_microsite w opts =
     js_or (opt_microsite opts) (js_or (ds_microsite opts) (JStr (hostname w)))"

text \<open>The project id of the shared design config: \<^verbatim>\<open>'local'\<close> or \<^verbatim>\<open>'default'\<close>.\<close>

definition configProjectId :: "window_env \<Rightarrow> jsval \<Rightarrow> jsval" where
  "configProjectId w apiBaseUrl =
     (if hostname w = ''localhost'' \<or> hostname w = ''127.0.0.1'' \<or> js_includes apiBaseUrl ''localhost''
      then JStr ''local'' else JStr ''default'')"

text \<open>
  Lines 625 to 658: the remote theme after the \<^verbatim>\<open>try\<close>/\<^verbatim>\<open>catch\<close> around the fetch.
  \<^verbatim>\<open>Object.keys\<close> throws on null (a response body \<^verbatim>\<open>null\<close>), and the \<^verbatim>\<open>catch\<close>
  resets the theme to the empty object.
\<close>

definition remote_theme_of :: "jsval \<Rightarrow> jsval" where
  "remote_theme_of fetched = (if fetched = JNull \<or> fetched = JUndef then JObj [] else fetched)"

text \<open>
  Lines 664 to 684. The property detector (\<^verbatim>\<open>propertyDetector.js\<close>) is not part of the
  sources at hand; its result is the parameter \<open>detected\<close>.
\<close>

definition property_detected :: "jsval \<Rightarrow> bool" where
  "property_detected detected = (truthy detected \<and> length (object_keys detected) > 0)"

definition init_theme :: "jsval \<Rightarrow> jsval \<Rightarrow> jsval \<Rightarrow> jsval" where
  "init_theme remoteTheme options_theme detected =
     (let themeOverrides = js_or options_theme (JObj []) in
      JObj (obj_assign []
        (own_entries remoteTheme @ own_entries themeOverrides @
         [(''propertyInfo'',
           if property_detected detected then detected
           else js_or (get_prop remoteTheme ''propertyInfo'') (JObj []))])))"

section \<open>Widget: the mount controller\<close>

subsection \<open>\<^verbatim>\<open>JSON.stringify\<close> and strict equality\<close>

definition hex_lower :: "nat \<Rightarrow> char" where
  "hex_lower n = ''0123456789abcdef'' ! n"

definition json_escape :: "char \<Rightarrow> string" where
  "json_escape c =
     (if c = CHR 0x22 then [CHR 0x5C, CHR 0x22]
      else if c = CHR 0x5C then [CHR 0x5C, CHR 0x5C]
      else if c = CHR 0x08 then [CHR 0x5C, CHR ''b'']
      else if c = CHR 0x0C then [CHR 0x5C, CHR ''f'']
      else if c = CHR 0x0A then [CHR 0x5C, CHR ''n'']
      else if c = CHR 0x0D then [CHR 0x5C, CHR ''r'']
      else if c = CHR 0x09 then [CHR 0x5C, CHR ''t'']
      else if (of_char c :: nat) < 32
        then [CHR 0x5C, CHR ''u'', CHR ''0'', CHR ''0'',
              hex_lower (of_char c div 16), hex_lower (of_char c mod 16)]
      else [c])"

definition json_quote :: "string \<Rightarrow> string" where
  "json_quote s = [CHR 0x22] @ concat (map json_escape s) @ [CHR 0x22]"

text \<open>
  \<^verbatim>\<open>JSON.stringify(v)\<close>: \<open>None\<close> is the result \<^verbatim>\<open>undefined\<close>. A property whose value
  is undefined is left out, an undefined array element is written \<^verbatim>\<open>null\<close>.
\<close>

fun json_stringify :: "jsval \<Rightarrow> string option" where
  "json_stringify JUndef = None"
| "json_stringify JNull = Some ''null''"
| "json_stringify (JBool b) = Some (if b then ''true'' else ''false'')"
| "json_stringify (JNum n) = Some (show_int n)"
| "json_stringify (JStr s) = Some (json_quote s)"
| "json_stringify (JArr xs) =
     Some (''['' @ join '',''
       (map (\<lambda>x. case json_stringify x of None \<Rightarrow> ''null'' | Some t \<Rightarrow> t) xs) @ '']'')"
| "json_stringify (JObj kvs) =
     Some (''{'' @ join '',''
       (concat (map (\<lambda>(k, v). case json_stringify v of
                                   None \<Rightarrow> []
                                 | Some t \<Rightarrow> [json_quote k @ '':'' @ t]) kvs)) @ ''}'')"

text \<open>
  \<^verbatim>\<open>a !== b\<close>. Primitives compare by value. Objects and arrays compare by identity,
  which a value does not carry: the themes that meet here come from separate JSON parses
  or literals, so two of their objects are never the same object.
\<close>

fun strict_neq :: "jsval \<Rightarrow> jsval \<Rightarrow> bool" where
  "strict_neq (JObj a) b = True"
| "strict_neq (JArr a) b = True"
| "strict_neq a b = (a \<noteq> b)"

definition is_primitive :: "jsval \<Rightarrow> bool" where
  "is_primitive v = (case v of JObj kvs \<Rightarrow> False | JArr xs \<Rightarrow> False | _ \<Rightarrow> True)"

subsection \<open>The page and the instances\<close>

text \<open>
  One page: the module-level state of \<^verbatim>\<open>widget.jsx\<close> (\<^verbatim>\<open>mountedWidgets\<close>, which
  only ever holds the key \<^verbatim>\<open>default-widget-instance\<close>, \<^verbatim>\<open>initInProgress\<close>,
  \<^verbatim>\<open>themeCache\<close>), the closures of the instance objects created so far, and what the
  browser holds for them: the elements in the document that carry
  \<^verbatim>\<open>data-homesfy-widget-host="true"\<close>, the running \<^verbatim>\<open>setInterval\<close> timers, the
  \<^verbatim>\<open>homesfy-config-updated\<close> listeners, and the log of \<^verbatim>\<open>root.render\<close> calls.
\<close>

record widget_instance =
  w_host :: nat
  w_target :: bool
  w_shadow :: bool
  w_apiBaseUrl :: jsval
  w_projectId :: jsval
  w_microsite :: jsval
  w_theme :: jsval
  w_pollInterval :: "nat option"
  w_unmounted :: bool

record render_call =
  r_instance :: nat
  r_projectId :: jsval
  r_theme :: jsval

record page =
  instances :: "nat \<Rightarrow> widget_instance option"
  next_instance :: nat
  mountedWidgets :: "nat option"
  marked_hosts :: "nat list"
  next_element :: nat
  intervals :: "(nat \<times> nat) list"
  next_timer :: nat
  config_listeners :: "nat list"
  renders :: "render_call list"
  initInProgress :: bool
  themeCache :: theme_cache

definition empty_page :: page where
  "empty_page =
     \<lparr>instances = (\<lambda>i. None), next_instance = 0, mountedWidgets = None, marked_hosts = [],
      next_element = 0, intervals = [], next_timer = 1, config_listeners = [], renders = [],
      initInProgress = False, themeCache = (\<lambda>k. None)\<rparr>"

text \<open>
  What \<^verbatim>\<open>init\<close> and \<^verbatim>\<open>mountWidget\<close> resolve to: an instance object, the no-op object
  of \<^verbatim>\<open>mountWidget\<close> (\<^verbatim>\<open>destroy\<close>, \<^verbatim>\<open>updateTheme\<close>, \<^verbatim>\<open>updateProjectId\<close>), or the
  no-op object of \<^verbatim>\<open>init\<close> (\<^verbatim>\<open>destroy\<close> only).
\<close>

datatype instance_ref = Inst nat | NoOpMount | NoOpInit

text \<open>\<^verbatim>\<open>root.render(<ChatWidget ... />)\<close> with the instance's current props.\<close>

definition render :: "nat \<Rightarrow> page \<Rightarrow> page" where
  "render i pg =
     (case instances pg i of
        None \<Rightarrow> pg
      | Some w \<Rightarrow>
          pg\<lparr>renders := renders pg @
               [\<lparr>r_instance = i, r_projectId = w_projectId w, r_theme = w_theme w\<rparr>]\<rparr>)"

text \<open>Lines 325 to 330.\<close>

definition hasChanges :: "jsval \<Rightarrow> jsval \<Rightarrow> bool" where
  "hasChanges newTheme currentTheme =
     (strict_neq (get_prop newTheme ''agentName'') (get_prop currentTheme ''agentName'') \<or>
      strict_neq (get_prop newTheme ''avatarUrl'') (get_prop currentTheme ''avatarUrl'') \<or>
      strict_neq (get_prop newTheme ''primaryColor'') (get_prop currentTheme ''primaryColor'') \<or>
      strict_neq (get_prop newTheme ''welcomeMessage'') (get_prop currentTheme ''welcomeMessage'') \<or>
      json_stringify newTheme \<noteq> json_stringify currentTheme)"

definition updateTheme :: "nat \<Rightarrow> jsval \<Rightarrow> page \<Rightarrow> page" where
  "updateTheme i newTheme pg =
     (case instances pg i of
        None \<Rightarrow> pg
      | Some w \<Rightarrow>
          if truthy newTheme \<and> hasChanges newTheme (js_or (w_theme w) (JObj []))
          then render i (pg\<lparr>instances := (instances pg)(i \<mapsto> w\<lparr>w_theme := newTheme\<rparr>)\<rparr>)
          else pg)"

definition updateProjectId :: "nat \<Rightarrow> jsval \<Rightarrow> page \<Rightarrow> page" where
  "updateProjectId i newProjectId pg =
     (case instances pg i of
        None \<Rightarrow> pg
      | Some w \<Rightarrow>
          if truthy newProjectId \<and> strict_neq newProjectId (w_projectId w)
          then render i (pg\<lparr>instances := (instances pg)(i \<mapsto> w\<lparr>w_projectId := newProjectId\<rparr>)\<rparr>)
          else pg)"

definition startConfigPolling :: "nat \<Rightarrow> page \<Rightarrow> page" where
  "startConfigPolling i pg =
     (case instances pg i of
        None \<Rightarrow> pg
      | Some w \<Rightarrow>
          if w_pollInterval w \<noteq> None then pg
          else pg\<lparr>instances := (instances pg)(i \<mapsto> w\<lparr>w_pollInterval := Some (next_timer pg)\<rparr>),
                  intervals := intervals pg @ [(next_timer pg, i)],
                  next_timer := Suc (next_timer pg),
                  config_listeners := config_listeners pg @ [i]\<rparr>)"

definition stopConfigPolling :: "nat \<Rightarrow> page \<Rightarrow> page" where
  "stopConfigPolling i pg =
     (case instances pg i of
        None \<Rightarrow> pg
      | Some w \<Rightarrow>
          (case w_pollInterval w of
             None \<Rightarrow> pg
           | Some h \<Rightarrow>
               pg\<lparr>instances := (instances pg)(i \<mapsto> w\<lparr>w_pollInterval := None\<rparr>),
                  intervals := filter (\<lambda>(h', j). h' \<noteq> h) (intervals pg)\<rparr>))"

definition unmount_root :: "nat \<Rightarrow> page \<Rightarrow> page" where
  "unmount_root i pg =
     (case instances pg i of
        None \<Rightarrow> pg
      | Some w \<Rightarrow> pg\<lparr>instances := (instances pg)(i \<mapsto> w\<lparr>w_unmounted := True\<rparr>)\<rparr>)"

definition remove_host :: "nat \<Rightarrow> page \<Rightarrow> page" where
  "remove_host h pg = pg\<lparr>marked_hosts := filter (\<lambda>e. e \<noteq> h) (marked_hosts pg)\<rparr>"

text \<open>
  The instance literal has the key \<^verbatim>\<open>destroy\<close> twice. The first body (lines 438 to
  448) stops the polling, unmounts, detaches the host and clears the registry.
\<close>

definition destroy_first :: "nat \<Rightarrow> page \<Rightarrow> page" where
  "destroy_first i pg =
     (case instances pg i of
        None \<Rightarrow> pg
      | Some w \<Rightarrow>
          (remove_host (w_host w) (unmount_root i (stopConfigPolling i pg)))
            \<lparr>mountedWidgets := None\<rparr>)"

text \<open>The second body (lines 472 to 479) unmounts, clears the registry and removes a host of its own.\<close>

definition destroy_second :: "nat \<Rightarrow> page \<Rightarrow> page" where
  "destroy_second i pg =
     (case instances pg i of
        None \<Rightarrow> pg
      | Some w \<Rightarrow>
          (let pg1 = (unmount_root i pg)\<lparr>mountedWidgets := None\<rparr>
           in if \<not> w_target w then remove_host (w_host w) pg1 else pg1))"

text \<open>
  The methods of the literal in source order, and the object it evaluates to: like every
  object literal, a later property of the same name replaces the earlier one.
\<close>

datatype method_body =
    Body_updateTheme
  | Body_startConfigPolling
  | Body_stopConfigPolling
  | Body_destroy_first
  | Body_updateProjectId
  | Body_destroy_second

definition instance_literal :: "(string \<times> method_body) list" where
  "instance_literal =
     [(''updateTheme'', Body_updateTheme),
      (''startConfigPolling'', Body_startConfigPolling),
      (''stopConfigPolling'', Body_stopConfigPolling),
      (''destroy'', Body_destroy_first),
      (''updateProjectId'', Body_updateProjectId),
      (''destroy'', Body_destroy_second)]"

fun literal_set :: "(string \<times> 'a) list \<Rightarrow> string \<Rightarrow> 'a \<Rightarrow> (string \<times> 'a) list" where
  "literal_set [] k v = [(k, v)]"
| "literal_set ((k', v') # kvs) k v =
     (if k' = k then (k, v) # kvs else (k', v') # literal_set kvs k v)"

definition instance_object :: "(string \<times> method_body) list" where
  "instance_object = foldl (\<lambda>acc (k, v). literal_set acc k v) [] instance_literal"

text \<open>\<^verbatim>\<open>instance.destroy()\<close>\<close>

definition destroy :: "nat \<Rightarrow> page \<Rightarrow> page" where
  "destroy i pg =
     (case map_of instance_object ''destroy'' of
        Some Body_destroy_first \<Rightarrow> destroy_first i pg
      | Some Body_destroy_second \<Rightarrow> destroy_second i pg
      | _ \<Rightarrow> pg)"

subsection \<open>Polling\<close>

text \<open>\<^verbatim>\<open>normalizeTheme\<close> of the interval callback (lines 368 to 376).\<close>

definition normalizeTheme :: "jsval \<Rightarrow> jsval" where
  "normalizeTheme theme =
     JObj (obj_assign [] (filter (\<lambda>(k, v). v \<noteq> JUndef \<and> v \<noteq> JNull) (own_entries theme)))"

definition poll_detects_change :: "jsval \<Rightarrow> jsval \<Rightarrow> bool" where
  "poll_detects_change currentTheme freshTheme =
     (let currentNormalized = normalizeTheme (js_or currentTheme (JObj []));
          freshNormalized = normalizeTheme freshTheme
      in json_stringify currentNormalized \<noteq> json_stringify freshNormalized \<or>
         strict_neq (get_prop currentNormalized ''avatarUrl'') (get_prop freshNormalized ''avatarUrl'') \<or>
         strict_neq (get_prop currentNormalized ''agentName'') (get_prop freshNormalized ''agentName'') \<or>
         strict_neq (get_prop currentNormalized ''primaryColor'')
           (get_prop freshNormalized ''primaryColor''))"

text \<open>The part of the interval callback after the fetch (lines 367 to 392).\<close>

definition apply_polled_theme :: "nat \<Rightarrow> jsval \<Rightarrow> page \<Rightarrow> page" where
  "apply_polled_theme i freshTheme pg =
     (case instances pg i of
        None \<Rightarrow> pg
      | Some w \<Rightarrow>
          if freshTheme \<noteq> JNull \<and> freshTheme \<noteq> JUndef \<and> poll_detects_change (w_theme w) freshTheme
          then updateTheme i freshTheme pg
          else pg)"

text \<open>One run of the interval callback of instance \<open>i\<close> (lines 352 to 396).\<close>

definition poll_tick :: "window_env \<Rightarrow> fetch_env \<Rightarrow> nat \<Rightarrow> page \<Rightarrow> page" where
  "poll_tick w fenv i pg =
     (case instances pg i of
        None \<Rightarrow> pg
      | Some inst \<Rightarrow>
          (let r = fetchWidgetTheme fenv (themeCache pg) (w_apiBaseUrl inst)
                     (configProjectId w (w_apiBaseUrl inst)) True
           in apply_polled_theme i (fr_value r) (pg\<lparr>themeCache := fr_cache r\<rparr>)))"

text \<open>The \<^verbatim>\<open>homesfy-config-updated\<close> listener of instance \<open>i\<close> (lines 400 to 426).\<close>

definition on_config_updated :: "window_env \<Rightarrow> fetch_env \<Rightarrow> nat \<Rightarrow> page \<Rightarrow> page" where
  "on_config_updated w fenv i pg =
     (case instances pg i of
        None \<Rightarrow> pg
      | Some inst \<Rightarrow>
          (let r = fetchWidgetTheme fenv (clearThemeCache (themeCache pg)) (w_apiBaseUrl inst)
                     (configProjectId w (w_apiBaseUrl inst)) True;
               pg1 = pg\<lparr>themeCache := fr_cache r\<rparr>
           in if truthy (fr_value r) \<and> length (object_keys (fr_value r)) > 0
              then updateTheme i (fr_value r) pg1 else pg1))"

subsection \<open>\<^verbatim>\<open>mountWidget\<close>\<close>

record mount_config =
  m_apiBaseUrl :: jsval
  m_projectId :: jsval
  m_microsite :: jsval
  m_theme :: jsval
  m_target :: "nat option"

text \<open>
  What the browser and React do when asked: whether \<^verbatim>\<open>document.body\<close> is there when
  the host is to be appended (line 261), whether \<^verbatim>\<open>attachShadow\<close> works, and whether
  \<^verbatim>\<open>ReactDOM.createRoot\<close> and the first \<^verbatim>\<open>render\<close> go through without throwing.
\<close>

record mount_env =
  body_present :: bool
  shadow_ok :: bool
  react_ok :: bool

text \<open>
  Lines 198 to 230: the two checks. \<open>Some\<close> is an early return, \<open>None\<close> means the
  function goes on to mount.
\<close>

definition mount_check :: "mount_config \<Rightarrow> page \<Rightarrow> (instance_ref \<times> page) option" where
  "mount_check cfg pg =
     (case mountedWidgets pg of
        Some existing \<Rightarrow>
          Some (Inst existing,
                updateProjectId existing (m_projectId cfg)
                  (if truthy (m_theme cfg) then updateTheme existing (m_theme cfg) pg else pg))
      | None \<Rightarrow> if marked_hosts pg \<noteq> [] then Some (NoOpMount, pg) else None)"

text \<open>
  Lines 232 to 487, once the checks have passed: \<open>Inl\<close> is a throw. A host of the
  widget's own is marked and appended to the body; a caller's target is used as it is.
\<close>

definition mount_attach :: "mount_env \<Rightarrow> mount_config \<Rightarrow> page \<Rightarrow> (string + instance_ref) \<times> page" where
  "mount_attach env cfg pg =
     (let host = (case m_target cfg of Some t \<Rightarrow> t | None \<Rightarrow> next_element pg);
          pg0 = (case m_target cfg of Some t \<Rightarrow> pg | None \<Rightarrow> pg\<lparr>next_element := Suc (next_element pg)\<rparr>)
      in if m_target cfg = None \<and> \<not> body_present env
         then (Inl ''Cannot mount widget: document.body not available'', pg0)
         else
           let pg1 = (if m_target cfg = None
                      then pg0\<lparr>marked_hosts := marked_hosts pg0 @ [host]\<rparr> else pg0)
           in if \<not> react_ok env then (Inl ''createRoot'', pg1)
              else
                let i = next_instance pg1;
                    inst = \<lparr>w_host = host, w_target = (m_target cfg \<noteq> None),
                            w_shadow = shadow_ok env,
                            w_apiBaseUrl = m_apiBaseUrl cfg, w_projectId = m_projectId cfg,
                            w_microsite = m_microsite cfg, w_theme = m_theme cfg,
                            w_pollInterval = None, w_unmounted = False\<rparr>;
                    pg2 = render i (pg1\<lparr>instances := (instances pg1)(i \<mapsto> inst),
                                         next_instance := Suc i\<rparr>);
                    pg3 = pg2\<lparr>mountedWidgets := Some i\<rparr>
                in (Inr (Inst i), startConfigPolling i pg3))"

definition mountWidget :: "mount_env \<Rightarrow> mount_config \<Rightarrow> page \<Rightarrow> (string + instance_ref) \<times> page" where
  "mountWidget env cfg pg =
     (case mount_check cfg pg of
        Some (r, pg') \<Rightarrow> (Inr r, pg')
      | None \<Rightarrow> mount_attach env cfg pg)"

subsection \<open>\<^verbatim>\<open>init\<close> as a task of the event loop\<close>

text \<open>
  The browser runs one piece of code at a time; an \<^verbatim>\<open>async\<close> function gives way to
  others only at an \<^verbatim>\<open>await\<close>. A call of \<^verbatim>\<open>init\<close> is therefore a task that moves
  in steps, each step being the code between two waits:
  \<^item> \<open>Fresh\<close>: called, nothing run yet;
  \<^item> \<open>Waiting\<close>: inside the \<^verbatim>\<open>while (initInProgress)\<close> loop, asleep for 100 ms;
  \<^item> \<open>Preparing\<close>: has set \<^verbatim>\<open>initInProgress\<close> and waits for the document and for the
    config fetch;
  \<^item> \<open>BodyWait\<close>: inside \<^verbatim>\<open>mountWidget\<close>, past the two checks, waiting for
    \<^verbatim>\<open>document.body\<close>;
  \<^item> \<open>Done\<close>: the promise is resolved.
  The return of \<^verbatim>\<open>mountWidget\<close> and the statements of \<^verbatim>\<open>init\<close> that follow it
  (which clear the flag) run without another task in between.
\<close>

datatype init_pc = Fresh | Waiting | Preparing | BodyWait mount_config | Done instance_ref

type_synonym init_task = "init_options \<times> init_pc"

text \<open>What a step meets: the outcome of the fetch, the detector's result and the browser.\<close>

record init_step_env =
  se_fetch :: fetch_env
  se_detected :: jsval
  se_body_at_check :: bool
  se_mount :: mount_env

text \<open>Lines 511 to 524, reached with an empty registry.\<close>

definition claim_init :: "page \<Rightarrow> init_pc \<times> page" where
  "claim_init pg = (Preparing, pg\<lparr>initInProgress := True\<rparr>)"

text \<open>Lines 736 to 748: \<^verbatim>\<open>init\<close> clears the flag and resolves, with a no-op object after a throw.\<close>

definition finish_init :: "(string + instance_ref) \<times> page \<Rightarrow> init_pc \<times> page" where
  "finish_init res =
     (case fst res of
        Inr r \<Rightarrow> (Done r, (snd res)\<lparr>initInProgress := False\<rparr>)
      | Inl err \<Rightarrow> (Done NoOpInit, (snd res)\<lparr>initInProgress := False\<rparr>))"

definition init_mount_config :: "window_env \<Rightarrow> init_options \<Rightarrow> jsval \<Rightarrow> jsval \<Rightarrow> mount_config" where
  "init_mount_config w opts fetched detected =
     \<lparr>m_apiBaseUrl = resolve_api_base_url w opts,
      m_projectId = resolve_project_id w opts,
      m_microsite = resolve_microsite w opts,
      m_theme = init_theme (remote_theme_of fetched) (opt_theme opts) detected,
      m_target = opt_target opts\<rparr>"

definition init_step :: "window_env \<Rightarrow> init_step_env \<Rightarrow> init_task \<Rightarrow> page \<Rightarrow> init_pc \<times> page" where
  "init_step w e task pg =
     (let opts = fst task in
      case snd task of
        Fresh \<Rightarrow>
          (case mountedWidgets pg of
             Some existing \<Rightarrow>
               (Done (Inst existing), updateProjectId existing (resolve_project_id w opts) pg)
           | None \<Rightarrow> if initInProgress pg then (Waiting, pg) else claim_init pg)
      | Waiting \<Rightarrow>
          (if initInProgress pg then (Waiting, pg)
           else case mountedWidgets pg of
                  Some existing \<Rightarrow> (Done (Inst existing), pg)
                | None \<Rightarrow> claim_init pg)
      | Preparing \<Rightarrow>
          (let api = resolve_api_base_url w opts;
               fr = fetchWidgetTheme (se_fetch e) (themeCache pg) api (configProjectId w api) True;
               pg1 = pg\<lparr>themeCache := fr_cache fr\<rparr>;
               cfg = init_mount_config w opts (fr_value fr) (se_detected e)
           in case mount_check cfg pg1 of
                Some (r, pg2) \<Rightarrow> finish_init (Inr r, pg2)
              | None \<Rightarrow>
                  if m_target cfg = None \<and> \<not> se_body_at_check e then (BodyWait cfg, pg1)
                  else finish_init (mount_attach ((se_mount e)\<lparr>body_present := True\<rparr>) cfg pg1))
      | BodyWait cfg \<Rightarrow> finish_init (mount_attach (se_mount e) cfg pg)
      | Done r \<Rightarrow> (Done r, pg))"

text \<open>
  What can happen on a page: a new call of \<^verbatim>\<open>init\<close>, the next step of a call, a tick
  of a running polling timer, and the \<^verbatim>\<open>homesfy-config-updated\<close> listener of an
  instance. A history is a list of these, applied to the empty page.
\<close>

datatype action =
    Call init_options
  | Step nat init_step_env
  | Tick nat fetch_env
  | Notify nat fetch_env

definition apply_action :: "window_env \<Rightarrow> action \<Rightarrow> page \<times> init_task list \<Rightarrow> page \<times> init_task list" where
  "apply_action w a st =
     (let pg = fst st; ts = snd st in
      case a of
        Call opts \<Rightarrow> (pg, ts @ [(opts, Fresh)])
      | Step i e \<Rightarrow>
          if i < length ts
          then (snd (init_step w e (ts ! i) pg),
                ts[i := (fst (ts ! i), fst (init_step w e (ts ! i) pg))])
          else st
      | Tick i fenv \<Rightarrow>
          if i \<in> snd ` set (intervals pg) then (poll_tick w fenv i pg, ts) else st
      | Notify i fenv \<Rightarrow>
          if i \<in> set (config_listeners pg) then (on_config_updated w fenv i pg, ts) else st)"

definition run :: "window_env \<Rightarrow> action list \<Rightarrow> page \<times> init_task list" where
  "run w as = foldl (\<lambda>st a. apply_action w a st) (empty_page, []) as"

text \<open>The instances that the calls of a history have resolved to.\<close>

definition resolved_instances :: "init_task list \<Rightarrow> nat list" where
  "resolved_instances ts = concat (map (\<lambda>t. case snd t of Done (Inst k) \<Rightarrow> [k] | _ \<Rightarrow> []) ts)"

definition is_active :: "init_pc \<Rightarrow> bool" where
  "is_active pc = (case pc of Preparing \<Rightarrow> True | BodyWait cfg \<Rightarrow> True | _ \<Rightarrow> False)"

definition is_body_wait :: "init_pc \<Rightarrow> bool" where
  "is_body_wait pc = (case pc of BodyWait cfg \<Rightarrow> True | _ \<Rightarrow> False)"

text \<open>
  The invariant of the page under every history: at most one marked host; at most one
  call is between claiming the flag and resolving, and while one is, the flag is set and
  the registry is empty; a call waiting for the body has not attached a host; every call
  that resolved to an instance resolved to the one in the registry.
\<close>

definition page_invariant :: "page \<times> init_task list \<Rightarrow> bool" where
  "page_invariant st =
     (let pg = fst st; pcs = map snd (snd st) in
      length (marked_hosts pg) \<le> 1 \<and>
      length (filter is_active pcs) \<le> 1 \<and>
      (filter is_active pcs \<noteq> [] \<longrightarrow> initInProgress pg \<and> mountedWidgets pg = None) \<and>
      (filter is_body_wait pcs \<noteq> [] \<longrightarrow> marked_hosts pg = []) \<and>
      list_all (\<lambda>k. mountedWidgets pg = Some k) (resolved_instances (snd st)))"

text \<open>Two pages agree on what the singleton guard reads: marked hosts, registry and flag.\<close>

definition same_guard_state :: "page \<Rightarrow> page \<Rightarrow> bool" where
  "same_guard_state pg pg' =
     (marked_hosts pg' = marked_hosts pg \<and> mountedWidgets pg' = mountedWidgets pg \<and>
      initInProgress pg' = initInProgress pg)"

subsection \<open>A concrete page\<close>

text \<open>
  An https page with one script tag, a config server that answers, and three browsers: one
  where everything works, one where \<^verbatim>\<open>document.body\<close> never appears, and one where
  \<^verbatim>\<open>ReactDOM.createRoot\<close> throws.
\<close>

definition example_window :: window_env where
  "example_window =
     \<lparr>protocol = ''https:'', hostname = ''www.example.com'', search_cache_bust = False,
      HOMESFY_WIDGET_API_BASE_URL = JUndef, rawEnvApiBaseUrl = JUndef,
      envDefaultProjectId = JUndef\<rparr>"

definition example_options :: init_options where
  "example_options =
     \<lparr>opt_projectId = JStr ''5717'', opt_apiBaseUrl = JStr ''https://api.example.com'',
      opt_microsite = JUndef, opt_theme = JUndef, opt_target = None, ds_project = JUndef,
      ds_projectId = JUndef, ds_apiBaseUrl = JUndef, ds_microsite = JUndef\<rparr>"

definition example_fetch :: fetch_env where
  "example_fetch =
     \<lparr>development = False, url_cache_bust = False, now_check = 5000, now_request = 5000,
      now_store = 5040,
      outcome = HttpResponse 200 (Some (JObj [(''agentName'', JStr ''Riya'')]))\<rparr>"

definition browser_ready :: init_step_env where
  "browser_ready =
     \<lparr>se_fetch = example_fetch, se_detected = JObj [], se_body_at_check = True,
      se_mount = \<lparr>body_present = True, shadow_ok = True, react_ok = True\<rparr>\<rparr>"

definition browser_without_body :: init_step_env where
  "browser_without_body =
     \<lparr>se_fetch = example_fetch, se_detected = JObj [], se_body_at_check = False,
      se_mount = \<lparr>body_present = False, shadow_ok = True, react_ok = True\<rparr>\<rparr>"

definition browser_react_throws :: init_step_env where
  "browser_react_throws =
     \<lparr>se_fetch = example_fetch, se_detected = JObj [], se_body_at_check = True,
      se_mount = \<lparr>body_present = True, shadow_ok = True, react_ok = False\<rparr>\<rparr>"

definition example_mount_config :: mount_config where
  "example_mount_config =
     \<lparr>m_apiBaseUrl = JStr ''https://api.example.com'', m_projectId = JStr ''5717'',
      m_microsite = JStr ''www.example.com'', m_theme = JObj [(''agentName'', JStr ''Riya'')],
      m_target = None\<rparr>"

definition working_browser :: mount_env where
  "working_browser = \<lparr>body_present = True, shadow_ok = True, react_ok = True\<rparr>"

text \<open>
  Three histories on that page. Two overlapping calls where everything works; two
  overlapping calls where the first one gives up for want of a body; one call during
  which React throws.
\<close>

definition overlapping_calls :: "action list" where
  "overlapping_calls =
     [Call example_options, Step 0 browser_ready, Call example_options, Step 1 browser_ready,
      Step 0 browser_ready, Step 1 browser_ready]"

definition first_call_fails :: "action list" where
  "first_call_fails =
     [Call example_options, Step 0 browser_ready, Call example_options, Step 1 browser_ready,
      Step 0 browser_without_body, Step 0 browser_without_body, Step 1 browser_ready]"

definition react_throws :: "action list" where
  "react_throws = [Call example_options, Step 0 browser_ready, Step 0 browser_react_throws]"

text \<open>A page with one mounted widget, the same page after \<^verbatim>\<open>instance.destroy()\<close>, and after mounting again.\<close>

definition mounted_page :: page where
  "mounted_page = snd (mountWidget working_browser example_mount_config empty_page)"

definition destroyed_page :: page where
  "destroyed_page = destroy 0 mounted_page"

definition remounted_page :: page where
  "remounted_page = snd (mountWidget working_browser example_mount_config destroyed_page)"

section \<open>API: creating a lead\<close>

text \<open>
  The route file \<^verbatim>\<open>routes/leads.js\<close> (\<^verbatim>\<open>normalizeBhkPreference\<close> and
  \<^verbatim>\<open>router.post("/")\<close>) with the MySQL lead, chat-session and event stores. The helpers
  it imports from \<^verbatim>\<open>utils/sanitize.js\<close> and \<^verbatim>\<open>utils/phoneValidation.js\<close> are
  not among the sources; they are parameters, as is the conversion of a string to a number
  (\<^verbatim>\<open>Number(s)\<close>), which the model does not spell out. The result of a conversion to
  a number is a finite double, which is a rational, or one of NaN and the two infinities.
\<close>

datatype js_number = Finite rat | NotFinite

record phone_result =
  ph_error :: jsval
  ph_value :: jsval
  ph_country :: jsval
  ph_subscriber :: jsval

record lead_utils =
  sanitizeMicrosite :: "jsval \<Rightarrow> jsval"
  sanitizeMetadata :: "jsval \<Rightarrow> jsval"
  sanitizeConversation :: "jsval \<Rightarrow> jsval"
  normalizePhone :: "string \<Rightarrow> phone_result"
  number_of_string :: "string \<Rightarrow> js_number"

text \<open>\<^verbatim>\<open>Number(v)\<close>; an array goes through its string form, an object is NaN.\<close>

definition to_number :: "(string \<Rightarrow> js_number) \<Rightarrow> jsval \<Rightarrow> js_number" where
  "to_number N v =
     (case v of
        JUndef \<Rightarrow> NotFinite
      | JNull \<Rightarrow> Finite 0
      | JBool b \<Rightarrow> Finite (if b then 1 else 0)
      | JNum n \<Rightarrow> Finite (of_int n)
      | JStr s \<Rightarrow> N s
      | JArr xs \<Rightarrow> N (to_string v)
      | JObj kvs \<Rightarrow> NotFinite)"

record bhk_pref =
  bhk_type_of :: string
  bhk_numeric :: "int option"

definition SPECIAL_BHK_MAPPINGS :: "(string \<times> bhk_pref) list" where
  "SPECIAL_BHK_MAPPINGS =
     [(''duplex'', \<lparr>bhk_type_of = ''Duplex'', bhk_numeric = None\<rparr>),
      (''justbrowsing'', \<lparr>bhk_type_of = ''Just Browsing'', bhk_numeric = None\<rparr>),
      (''justlooking'', \<lparr>bhk_type_of = ''Just Browsing'', bhk_numeric = None\<rparr>),
      (''other'', \<lparr>bhk_type_of = ''Other'', bhk_numeric = None\<rparr>),
      (''yettodecide'', \<lparr>bhk_type_of = ''Yet to decide'', bhk_numeric = None\<rparr>)]"

definition is_digit :: "char \<Rightarrow> bool" where
  "is_digit c = (c \<in> set ''0123456789'')"

definition is_upper :: "char \<Rightarrow> bool" where
  "is_upper c = (c \<in> set ''ABCDEFGHIJKLMNOPQRSTUVWXYZ'')"

definition is_lower :: "char \<Rightarrow> bool" where
  "is_lower c = (c \<in> set ''abcdefghijklmnopqrstuvwxyz'')"

definition to_lower :: "char \<Rightarrow> char" where
  "to_lower c = (if is_upper c then char_of (of_char c + (32::nat)) else c)"

text \<open>\<^verbatim>\<open>String(value).toLowerCase().replace(/[^a-z0-9]/g, "")\<close>, on an argument that is a string already.\<close>

definition normalizeKey :: "string \<Rightarrow> string" where
  "normalizeKey s = filter (\<lambda>c. is_lower c \<or> is_digit c) (map to_lower s)"

text \<open>\<^verbatim>\<open>trimmed.match(/(\d+)/)\<close>: the first maximal run of digits, if there is one.\<close>

definition digits_match :: "string \<Rightarrow> string option" where
  "digits_match s =
     (let run = takeWhile is_digit (dropWhile (\<lambda>c. \<not> is_digit c) s)
      in if run = [] then None else Some run)"

definition digit_value :: "char \<Rightarrow> nat" where
  "digit_value c = of_char c - 48"

definition nat_of_digits :: "string \<Rightarrow> nat" where
  "nat_of_digits ds = foldl (\<lambda>acc c. 10 * acc + digit_value c) 0 ds"

text \<open>
  \<^verbatim>\<open>Number(digits)\<close> for a string of decimal digits: the double nearest to the value,
  ties going to the even significand of 53 bits; \<open>None\<close> is Infinity, which is what
  rounding gives from \<open>2^1024 - 2^970\<close> on.
\<close>

fun bit_length :: "nat \<Rightarrow> nat" where
  "bit_length n = (if n = 0 then 0 else Suc (bit_length (n div 2)))"

declare bit_length.simps [simp del]

definition nearest_double :: "nat \<Rightarrow> nat option" where
  "nearest_double n =
     (if bit_length n \<le> 53 then Some n
      else
        let e = bit_length n - 53;
            q = n div 2 ^ e;
            r = n mod 2 ^ e;
            q' = (if 2 * r > 2 ^ e \<or> (2 * r = 2 ^ e \<and> odd q) then q + 1 else q);
            v = q' * 2 ^ e
        in if v \<ge> 2 ^ 1024 then None else Some v)"

definition number_of_digits :: "string \<Rightarrow> nat option" where
  "number_of_digits ds = nearest_double (nat_of_digits ds)"

definition bhk_label :: "int \<Rightarrow> string" where
  "bhk_label n = show_int n @ '' BHK''"

text \<open>A field counts as given when it is not undefined, null or the empty string.\<close>

definition given :: "jsval \<Rightarrow> bool" where
  "given v = (v \<noteq> JUndef \<and> v \<noteq> JNull \<and> v \<noteq> JStr [])"

text \<open>\<^verbatim>\<open>Math.round(x)\<close>: the nearest integer, a tie going up.\<close>

definition js_round :: "rat \<Rightarrow> int" where
  "js_round x = \<lfloor>x + 1 / 2\<rfloor>"

text \<open>The numeric branch (lines 63 to 72).\<close>

definition bhk_of_number :: "rat \<Rightarrow> bhk_pref" where
  "bhk_of_number numericValue =
     (if numericValue = 0 then \<lparr>bhk_type_of = ''Yet to decide'', bhk_numeric = None\<rparr>
      else let rounded = js_round numericValue in
        if rounded \<ge> 1 \<and> rounded \<le> 4
        then \<lparr>bhk_type_of = bhk_label rounded, bhk_numeric = Some rounded\<rparr>
        else \<lparr>bhk_type_of = ''Other'', bhk_numeric = Some rounded\<rparr>)"

definition bhk_of_type :: "jsval \<Rightarrow> bhk_pref option" where
  "bhk_of_type bhkType =
     (if given bhkType then
        let trimmed = js_trim (to_string bhkType) in
        if trimmed = [] then None
        else
          let compactKey = normalizeKey trimmed in
          case map_of SPECIAL_BHK_MAPPINGS compactKey of
            Some m \<Rightarrow> Some m
          | None \<Rightarrow>
              (case digits_match trimmed of
                 None \<Rightarrow> None
               | Some ds \<Rightarrow>
                   (case number_of_digits ds of
                      None \<Rightarrow> None
                    | Some numeric \<Rightarrow>
                        if numeric = 0
                        then Some \<lparr>bhk_type_of = ''Yet to decide'', bhk_numeric = None\<rparr>
                        else if numeric \<ge> 1 \<and> numeric \<le> 4
                        then Some \<lparr>bhk_type_of = bhk_label (int numeric),
                                   bhk_numeric = Some (int numeric)\<rparr>
                        else Some \<lparr>bhk_type_of = ''Other'', bhk_numeric = Some (int numeric)\<rparr>))
      else None)"

definition normalizeBhkPreference ::
  "(string \<Rightarrow> js_number) \<Rightarrow> jsval \<Rightarrow> jsval \<Rightarrow> bhk_pref option" where
  "normalizeBhkPreference N bhk bhkType =
     (case (if given bhk then to_number N bhk else NotFinite) of
        Finite numericValue \<Rightarrow> Some (bhk_of_number numericValue)
      | NotFinite \<Rightarrow> bhk_of_type bhkType)"

subsection \<open>The stores\<close>

text \<open>
  The rows that \<^verbatim>\<open>createLead\<close>, \<^verbatim>\<open>createChatSession\<close> and \<^verbatim>\<open>createEvent\<close>
  insert (the MySQL stores), without the time columns the database fills in. A store call
  can fail (the query rejects); whether it does is the environment's choice.
\<close>

record lead_row =
  lead_id :: nat
  lead_phone :: jsval
  lead_bhk_type :: string
  lead_bhk :: "int option"
  lead_microsite :: jsval
  lead_source :: string
  lead_status :: string
  lead_metadata :: jsval
  lead_conversation :: jsval
  lead_location :: jsval

record session_row =
  ses_microsite :: jsval
  ses_project_id :: jsval
  ses_lead_id :: nat
  ses_phone :: jsval
  ses_bhk_type :: string
  ses_conversation :: jsval
  ses_metadata :: jsval
  ses_location :: jsval

record event_row =
  ev_type :: string
  ev_project_id :: jsval
  ev_microsite :: jsval
  ev_payload :: jsval
  ev_location :: jsval

record api_stores =
  leads :: "lead_row list"
  chat_sessions :: "session_row list"
  events :: "event_row list"

record store_env =
  stores_load :: bool
  createLead_ok :: bool
  createChatSession_ok :: bool
  recordEvent_ok :: bool

definition int_or_null :: "int option \<Rightarrow> jsval" where
  "int_or_null n = (case n of None \<Rightarrow> JNull | Some i \<Rightarrow> JNum i)"

text \<open>\<^verbatim>\<open>data.bhk || null\<close> on the numeric part of the preference.\<close>

definition bhk_column :: "int option \<Rightarrow> int option" where
  "bhk_column n = (case n of None \<Rightarrow> None | Some i \<Rightarrow> if i = 0 then None else Some i)"

text \<open>
  \<^verbatim>\<open>JSON.parse(JSON.stringify(v))\<close>, the trip of a JSON column through the database:
  properties whose value is undefined are dropped, undefined array elements become null.
\<close>

fun json_roundtrip :: "jsval \<Rightarrow> jsval" where
  "json_roundtrip (JObj kvs) =
     JObj (map (\<lambda>(k, v). (k, json_roundtrip v)) (filter (\<lambda>(k, v). v \<noteq> JUndef) kvs))"
| "json_roundtrip (JArr xs) =
     JArr (map (\<lambda>x. if x = JUndef then JNull else json_roundtrip x) xs)"
| "json_roundtrip v = v"

definition createLead ::
  "api_stores \<Rightarrow> jsval \<Rightarrow> bhk_pref \<Rightarrow> jsval \<Rightarrow> jsval \<Rightarrow> jsval \<Rightarrow> jsval \<Rightarrow> lead_row \<times> api_stores" where
  "createLead st phone pref microsite metadata conversation location =
     (let row = \<lparr>lead_id = Suc (length (leads st)),
                 lead_phone = js_or phone JNull,
                 lead_bhk_type = bhk_type_of pref,
                 lead_bhk = bhk_column (bhk_numeric pref),
                 lead_microsite = microsite,
                 lead_source = ''ChatWidget'',
                 lead_status = ''new'',
                 lead_metadata = json_roundtrip (js_or metadata (JObj [])),
                 lead_conversation = json_roundtrip (js_or conversation (JArr [])),
                 lead_location = json_roundtrip (js_or location JNull)\<rparr>
      in (row, st\<lparr>leads := leads st @ [row]\<rparr>))"

definition lead_json :: "lead_row \<Rightarrow> jsval" where
  "lead_json r = JObj
     [(''id'', JNum (int (lead_id r))),
      (''phone'', lead_phone r),
      (''bhk_type'', JStr (lead_bhk_type r)),
      (''bhk'', int_or_null (lead_bhk r)),
      (''microsite'', lead_microsite r),
      (''lead_source'', JStr (lead_source r)),
      (''status'', JStr (lead_status r)),
      (''metadata'', lead_metadata r),
      (''conversation'', lead_conversation r),
      (''location'', lead_location r)]"

definition createChatSession :: "api_stores \<Rightarrow> session_row \<Rightarrow> api_stores" where
  "createChatSession st row =
     st\<lparr>chat_sessions := chat_sessions st @
       [row\<lparr>ses_project_id := js_or (ses_project_id row) JNull,
            ses_phone := js_or (ses_phone row) JNull,
            ses_conversation := json_roundtrip (js_or (ses_conversation row) (JArr [])),
            ses_metadata := json_roundtrip (js_or (ses_metadata row) (JObj [])),
            ses_location := json_roundtrip (js_or (ses_location row) JNull)\<rparr>]\<rparr>"

definition recordEvent :: "api_stores \<Rightarrow> event_row \<Rightarrow> api_stores" where
  "recordEvent st row =
     st\<lparr>events := events st @
       [row\<lparr>ev_microsite := js_or (ev_microsite row) JNull,
            ev_payload := json_roundtrip (js_or (ev_payload row) (JObj [])),
            ev_location := json_roundtrip (js_or (ev_location row) JNull)\<rparr>]\<rparr>"

subsection \<open>The route\<close>

text \<open>\<^verbatim>\<open>a ?? b\<close>\<close>

definition js_nullish :: "jsval \<Rightarrow> jsval \<Rightarrow> jsval" where
  "js_nullish a b = (if a = JUndef \<or> a = JNull then b else a)"

text \<open>\<^verbatim>\<open>typeof v === "object"\<close> for a truthy \<open>v\<close>\<close>

definition is_object :: "jsval \<Rightarrow> bool" where
  "is_object v = (case v of JObj kvs \<Rightarrow> True | JArr xs \<Rightarrow> True | _ \<Rightarrow> False)"

text \<open>\<^verbatim>\<open>v?.k\<close>\<close>

definition opt_prop :: "jsval \<Rightarrow> string \<Rightarrow> jsval" where
  "opt_prop v k = get_prop v k"

text \<open>Lines 142 to 169: the metadata that is stored, given the phone normalisation (if any).\<close>

definition metadata_payload :: "jsval \<Rightarrow> phone_result option \<Rightarrow> jsval" where
  "metadata_payload metadata ph =
     (let payload0 = (if truthy metadata \<and> is_object metadata
                      then JObj (obj_assign [] (own_entries metadata)) else JUndef)
      in case ph of
           None \<Rightarrow> payload0
         | Some r \<Rightarrow>
             (case payload0 of
                JObj kvs \<Rightarrow>
                  (let fill = (\<lambda>acc (k, v).
                         obj_set acc k (js_nullish (get_prop (JObj acc) k)
                           (js_nullish v (get_prop (JObj acc) k))))
                   in JObj (foldl fill kvs
                        [(''phoneCountry'', opt_prop (ph_country r) ''name''),
                         (''phoneCountryCode'', opt_prop (ph_country r) ''countryCode''),
                         (''phoneDialCode'', opt_prop (ph_country r) ''code''),
                         (''phoneSubscriber'', ph_subscriber r)]))
              | _ \<Rightarrow>
                  JObj (obj_assign []
                    [(''phoneCountry'', opt_prop (ph_country r) ''name''),
                     (''phoneCountryCode'', opt_prop (ph_country r) ''countryCode''),
                     (''phoneDialCode'', opt_prop (ph_country r) ''code''),
                     (''phoneSubscriber'', ph_subscriber r)])))"

definition message_body :: "string \<Rightarrow> jsval" where
  "message_body m = JObj [(''message'', JStr m)]"

text \<open>\<^verbatim>\<open>typeof phone === "string" && phone.trim().length > 0 ? phone.trim() : undefined\<close>\<close>

definition sanitized_phone :: "jsval \<Rightarrow> string option" where
  "sanitized_phone phone =
     (case phone of
        JStr s \<Rightarrow> if js_trim s \<noteq> [] then Some (js_trim s) else None
      | _ \<Rightarrow> None)"

text \<open>The payload of the \<^verbatim>\<open>lead_submitted\<close> event: \<^verbatim>\<open>bhk\<close> only when the numeric part is set.\<close>

definition lead_event_payload :: "nat \<Rightarrow> bhk_pref \<Rightarrow> jsval" where
  "lead_event_payload leadId pref =
     JObj (obj_assign []
       ([(''leadId'', JNum (int leadId)), (''bhkType'', JStr (bhk_type_of pref))] @
        (case bhk_numeric pref of None \<Rightarrow> [] | Some n \<Rightarrow> [(''bhk'', JNum n)])))"

text \<open>
  The part of the handler after validation (lines 141 to 221), inside the
  \<^verbatim>\<open>try\<close>: a failing store call other than \<^verbatim>\<open>createChatSession\<close> ends in the
  \<^verbatim>\<open>catch\<close> with status 500, keeping what was stored before it.
\<close>

definition store_lead ::
  "store_env \<Rightarrow> api_stores \<Rightarrow> jsval \<Rightarrow> jsval \<Rightarrow> bhk_pref \<Rightarrow> string option \<Rightarrow>
   phone_result option \<Rightarrow> jsval \<Rightarrow> jsval \<Rightarrow> response \<times> api_stores" where
  "store_lead senv st body_location microsite pref sanitizedPhone ph metadata conversation =
     (let normalizedPhone = (case ph of None \<Rightarrow> JUndef | Some r \<Rightarrow> ph_value r);
          metadataPayload = metadata_payload metadata ph;
          location = js_or (opt_prop metadataPayload ''location'')
                       (js_or (opt_prop (opt_prop metadataPayload ''visitor'') ''location'')
                         (js_or body_location JNull));
          failed = \<lparr>status = 500, body = message_body ''Failed to create lead''\<rparr>
      in if \<not> stores_load senv \<or> \<not> createLead_ok senv then (failed, st)
         else
           let (lead, st1) = createLead st normalizedPhone pref microsite metadataPayload
                               conversation location;
               leadId = lead_id lead;
               st2 = (if createChatSession_ok senv
                      then createChatSession st1
                             \<lparr>ses_microsite = microsite,
                              ses_project_id = js_or (opt_prop metadataPayload ''projectId'')
                                                 (opt_prop metadata ''projectId''),
                              ses_lead_id = leadId,
                              ses_phone = js_nullish normalizedPhone
                                (case sanitizedPhone of None \<Rightarrow> JUndef | Some p \<Rightarrow> JStr p),
                              ses_bhk_type = bhk_type_of pref,
                              ses_conversation = conversation,
                              ses_metadata = metadataPayload,
                              ses_location = location\<rparr>
                      else st1)
           in if \<not> recordEvent_ok senv then (failed, st2)
              else
                (\<lparr>status = 201,
                  body = JObj [(''message'', JStr ''Lead created''), (''lead'', lead_json lead)]\<rparr>,
                 recordEvent st2
                   \<lparr>ev_type = ''lead_submitted'', ev_project_id = microsite,
                    ev_microsite = microsite,
                    ev_payload = lead_event_payload leadId pref,
                    ev_location = location\<rparr>))"

text \<open>\<^verbatim>\<open>router.post("/")\<close> on the request body \<open>b\<close>.\<close>

definition post_lead ::
  "lead_utils \<Rightarrow> store_env \<Rightarrow> api_stores \<Rightarrow> jsval \<Rightarrow> response \<times> api_stores" where
  "post_lead U senv st b =
     (let microsite = sanitizeMicrosite U (get_prop b ''microsite'') in
      if \<not> truthy microsite
      then (\<lparr>status = 400, body = message_body ''Missing or invalid microsite''\<rparr>, st)
      else
        let metadata = sanitizeMetadata U (get_prop b ''metadata'');
            conversation = sanitizeConversation U (get_prop b ''conversation'')
        in case normalizeBhkPreference (number_of_string U) (get_prop b ''bhk'') (get_prop b ''bhkType'') of
             None \<Rightarrow> (\<lparr>status = 400, body = message_body ''Invalid or missing BHK preference''\<rparr>, st)
           | Some pref \<Rightarrow>
               (case sanitized_phone (get_prop b ''phone'') of
                  None \<Rightarrow>
                    store_lead senv st (get_prop b ''location'') microsite pref None None
                      metadata conversation
                | Some p \<Rightarrow>
                    (let r = normalizePhone U p in
                     if truthy (ph_error r) then (\<lparr>status = 400, body = JObj [(''message'', ph_error r)]\<rparr>, st)
                     else store_lead senv st (get_prop b ''location'') microsite pref (Some p) (Some r)
                            metadata conversation)))"

subsection \<open>What a created lead looks like\<close>





subsection \<open>Concrete requests\<close>

text \<open>
  Stand-ins for the helpers that are not among the sources, to run the route on concrete
  requests: a microsite is kept when it is a string, a phone passes when it is ten digits.
  No property below depends on them.
\<close>

definition example_utils :: lead_utils where
  "example_utils =
     \<lparr>sanitizeMicrosite = (\<lambda>v. case v of JStr s \<Rightarrow> JStr (js_trim s) | _ \<Rightarrow> JStr []),
      sanitizeMetadata = (\<lambda>v. v),
      sanitizeConversation = (\<lambda>v. v),
      normalizePhone = (\<lambda>s.
        if length s = 10 \<and> list_all is_digit s
        then \<lparr>ph_error = JUndef, ph_value = JStr (''+91'' @ s),
              ph_country = JObj [(''name'', JStr ''India''), (''countryCode'', JStr ''IN''),
                                 (''code'', JStr ''+91'')],
              ph_subscriber = JStr s\<rparr>
        else \<lparr>ph_error = JStr ''Invalid phone number'', ph_value = JUndef,
              ph_country = JUndef, ph_subscriber = JUndef\<rparr>),
      number_of_string = (\<lambda>s.
        if s \<noteq> [] \<and> list_all is_digit s
        then (case number_of_digits s of None \<Rightarrow> NotFinite | Some n \<Rightarrow> Finite (of_nat n))
        else NotFinite)\<rparr>"

definition working_stores :: store_env where
  "working_stores =
     \<lparr>stores_load = True, createLead_ok = True, createChatSession_ok = True,
      recordEvent_ok = True\<rparr>"

definition empty_stores :: api_stores where
  "empty_stores = \<lparr>leads = [], chat_sessions = [], events = []\<rparr>"

chapter \<open>Properties\<close>

section \<open>The shared-secret check\<close>






section \<open>The API base URL guard\<close>

lemma normalize_api_base_url_JNull: "normalize_api_base_url JNull = JNull"
  by (simp add: normalize_api_base_url_def)

lemma not_mentions_localhost_JNull: "\<not> mentions_localhost JNull"
  by (simp add: mentions_localhost_def)

lemma resolve_api_base_url_discards:
  assumes m: "mentions_localhost (configured_api_base_url w opts)"
    and g: "\<not> isActuallyLocalhost w \<or> protocol w = ''https:''"
  shows "resolve_api_base_url w opts = JNull"
proof -
  from m have t: "truthy (configured_api_base_url w opts)"
    by (simp add: mentions_localhost_def)
  show ?thesis
    using m g t
    by (auto simp: resolve_api_base_url_def Let_def normalize_api_base_url_JNull
        not_mentions_localhost_JNull)
qed

lemma fetchWidgetTheme_forced_request:
  "fr_request (fetchWidgetTheme env cache api pid True) =
     Some (widget_config_url api pid (now_request env))"
  by (simp add: fetchWidgetTheme_def Let_def cache_lookup_def split: option.splits)

lemma resolve_api_base_url_keeps:
  assumes t: "truthy (configured_api_base_url w opts)"
    and k: "\<not> mentions_localhost (configured_api_base_url w opts) \<or>
            isActuallyLocalhost w \<and> protocol w \<noteq> ''https:''"
  shows "resolve_api_base_url w opts = normalize_api_base_url (configured_api_base_url w opts)"
  using t k by (auto simp: resolve_api_base_url_def Let_def)

text \<open>
  C8, as stated, fails in both cases. On an https page a configured plain-http URL that
  does not name localhost is kept, and the config request goes to it; on a page that is
  not loopback the loopback URL \<^verbatim>\<open>http://[::1]:4000\<close> is kept as well, because the test
  is for the substrings \<^verbatim>\<open>localhost\<close> and \<^verbatim>\<open>127.0.0.1\<close>.
\<close>

theorem resolve_api_base_url_plain_http_counterexample:
  "resolve_api_base_url
     \<lparr>protocol = ''https:'', hostname = ''www.example.com'', search_cache_bust = False,
      HOMESFY_WIDGET_API_BASE_URL = JUndef, rawEnvApiBaseUrl = JUndef,
      envDefaultProjectId = JUndef\<rparr>
     \<lparr>opt_projectId = JUndef, opt_apiBaseUrl = JStr ''http://api.example.com'',
      opt_microsite = JUndef, opt_theme = JUndef, opt_target = None, ds_project = JUndef,
      ds_projectId = JUndef, ds_apiBaseUrl = JUndef, ds_microsite = JUndef\<rparr>
   = JStr ''http://api.example.com'' \<and>
   widget_config_url (JStr ''http://api.example.com'') (JStr ''default'') 1700 =
     ''http://api.example.com/api/widget-config/default?t=1700&_=1700'' \<and>
   resolve_api_base_url
     \<lparr>protocol = ''http:'', hostname = ''www.example.com'', search_cache_bust = False,
      HOMESFY_WIDGET_API_BASE_URL = JUndef, rawEnvApiBaseUrl = JUndef,
      envDefaultProjectId = JUndef\<rparr>
     \<lparr>opt_projectId = JUndef, opt_apiBaseUrl = JStr ''http://[::1]:4000'',
      opt_microsite = JUndef, opt_theme = JUndef, opt_target = None, ds_project = JUndef,
      ds_projectId = JUndef, ds_apiBaseUrl = JUndef, ds_microsite = JUndef\<rparr>
   = JStr ''http://[::1]:4000'' \<and>
   widget_config_url (JStr ''http://[::1]:4000'') (JStr ''default'') 1700 =
     ''http://[::1]:4000/api/widget-config/default?t=1700&_=1700''"
proof -
  let ?w1 = "\<lparr>protocol = ''https:'', hostname = ''www.example.com'', search_cache_bust = False,
      HOMESFY_WIDGET_API_BASE_URL = JUndef, rawEnvApiBaseUrl = JUndef,
      envDefaultProjectId = JUndef\<rparr>"
  let ?w2 = "\<lparr>protocol = ''http:'', hostname = ''www.example.com'', search_cache_bust = False,
      HOMESFY_WIDGET_API_BASE_URL = JUndef, rawEnvApiBaseUrl = JUndef,
      envDefaultProjectId = JUndef\<rparr>"
  let ?o1 = "\<lparr>opt_projectId = JUndef, opt_apiBaseUrl = JStr ''http://api.example.com'',
      opt_microsite = JUndef, opt_theme = JUndef, opt_target = None, ds_project = JUndef,
      ds_projectId = JUndef, ds_apiBaseUrl = JUndef, ds_microsite = JUndef\<rparr>"
  let ?o2 = "\<lparr>opt_projectId = JUndef, opt_apiBaseUrl = JStr ''http://[::1]:4000'',
      opt_microsite = JUndef, opt_theme = JUndef, opt_target = None, ds_project = JUndef,
      ds_projectId = JUndef, ds_apiBaseUrl = JUndef, ds_microsite = JUndef\<rparr>"
  have c1: "configured_api_base_url ?w1 ?o1 = JStr ''http://api.example.com''"
    and c2: "configured_api_base_url ?w2 ?o2 = JStr ''http://[::1]:4000''"
    by (simp_all add: configured_api_base_url_def js_or_def)
  have n1: "\<not> mentions_localhost (JStr ''http://api.example.com'')"
    and n2: "\<not> mentions_localhost (JStr ''http://[::1]:4000'')"
    by code_simp+
  have z1: "normalize_api_base_url (JStr ''http://api.example.com'') = JStr ''http://api.example.com''"
    and z2: "normalize_api_base_url (JStr ''http://[::1]:4000'') = JStr ''http://[::1]:4000''"
    by code_simp+
  have r1: "resolve_api_base_url ?w1 ?o1 = JStr ''http://api.example.com''"
    using resolve_api_base_url_keeps [of ?w1 ?o1] by (simp add: c1 n1 z1)
  have r2: "resolve_api_base_url ?w2 ?o2 = JStr ''http://[::1]:4000''"
    using resolve_api_base_url_keeps [of ?w2 ?o2] by (simp add: c2 n2 z2)
  have e: "encodeURIComponent ''default'' = ''default''"
    by code_simp
  have s: "show_int 1700 = ''1700''"
    by (simp add: show_int_def show_nat.simps digit_char_def)
  have u1: "widget_config_url (JStr ''http://api.example.com'') (JStr ''default'') 1700 =
      ''http://api.example.com/api/widget-config/default?t=1700&_=1700''"
    and u2: "widget_config_url (JStr ''http://[::1]:4000'') (JStr ''default'') 1700 =
      ''http://[::1]:4000/api/widget-config/default?t=1700&_=1700''"
    by (simp_all add: widget_config_url_def e s)
  show ?thesis
    by (intro conjI) (rule r1 r2 u1 u2)+
qed

text \<open>
  C8, amended: \<^verbatim>\<open>init\<close> discards the configured API base URL (goes on with
  \<^verbatim>\<open>null\<close>) whenever the URL contains \<^verbatim>\<open>localhost\<close> or \<^verbatim>\<open>127.0.0.1\<close> and either
  (1) the page's hostname is none of \<^verbatim>\<open>localhost\<close>, \<^verbatim>\<open>127.0.0.1\<close> and the empty
  hostname, or (2) the page is served over https; the config request that follows is then
  built from \<^verbatim>\<open>null\<close>, not from the discarded URL. A build-time URL that contains
  \<^verbatim>\<open>localhost\<close> or \<^verbatim>\<open>127.0.0.1\<close> is dropped on an https page when the module loads.
  Every other configured URL is kept, less a trailing \<^verbatim>\<open>/api\<close> and a trailing slash:
  a URL that contains neither substring, whatever its scheme and the page's, and a URL
  that contains one on an http page whose hostname is \<^verbatim>\<open>localhost\<close>, \<^verbatim>\<open>127.0.0.1\<close>
  or empty.
\<close>

theorem api_base_url_guard:
  "(mentions_localhost (configured_api_base_url w opts) \<and>
     (\<not> isActuallyLocalhost w \<or> protocol w = ''https:'') \<longrightarrow>
     resolve_api_base_url w opts = JNull \<and>
     fr_request (fetchWidgetTheme env cache (resolve_api_base_url w opts) pid True) =
       Some (''null/api/widget-config/'' @ encodeURIComponent (to_string pid)
             @ ''?t='' @ show_int (now_request env) @ ''&_='' @ show_int (now_request env))) \<and>
   (protocol w = ''https:'' \<and> mentions_localhost (rawEnvApiBaseUrl w) \<longrightarrow>
     envApiBaseUrl w = JUndef) \<and>
   (truthy (configured_api_base_url w opts) \<and>
     \<not> mentions_localhost (configured_api_base_url w opts) \<longrightarrow>
     resolve_api_base_url w opts = normalize_api_base_url (configured_api_base_url w opts)) \<and>
   (mentions_localhost (configured_api_base_url w opts) \<and> isActuallyLocalhost w \<and>
     protocol w \<noteq> ''https:'' \<longrightarrow>
     resolve_api_base_url w opts = normalize_api_base_url (configured_api_base_url w opts))"
proof -
  have e: "envApiBaseUrl w = JUndef"
    if "protocol w = ''https:''" "mentions_localhost (rawEnvApiBaseUrl w)"
    using that by (simp add: envApiBaseUrl_def)
  have d: "resolve_api_base_url w opts = JNull \<and>
     fr_request (fetchWidgetTheme env cache (resolve_api_base_url w opts) pid True) =
       Some (''null/api/widget-config/'' @ encodeURIComponent (to_string pid)
             @ ''?t='' @ show_int (now_request env) @ ''&_='' @ show_int (now_request env))"
    if "mentions_localhost (configured_api_base_url w opts)"
      "\<not> isActuallyLocalhost w \<or> protocol w = ''https:''"
    using that
    by (simp add: resolve_api_base_url_discards fetchWidgetTheme_forced_request
        widget_config_url_def)
  have k1: "resolve_api_base_url w opts = normalize_api_base_url (configured_api_base_url w opts)"
    if "truthy (configured_api_base_url w opts)"
      "\<not> mentions_localhost (configured_api_base_url w opts)"
    using that by (simp add: resolve_api_base_url_keeps)
  have k2: "resolve_api_base_url w opts = normalize_api_base_url (configured_api_base_url w opts)"
    if "mentions_localhost (configured_api_base_url w opts)" "isActuallyLocalhost w"
      "protocol w \<noteq> ''https:''"
    using that by (simp add: resolve_api_base_url_keeps mentions_localhost_def)
  show ?thesis
    using e d k1 k2 by blast
qed

theorem api_base_url_guard_witness:
  "resolve_api_base_url
     \<lparr>protocol = ''https:'', hostname = ''www.example.com'', search_cache_bust = False,
      HOMESFY_WIDGET_API_BASE_URL = JUndef, rawEnvApiBaseUrl = JStr ''http://127.0.0.1:4000'',
      envDefaultProjectId = JUndef\<rparr>
     \<lparr>opt_projectId = JUndef, opt_apiBaseUrl = JUndef,
      opt_microsite = JUndef, opt_theme = JUndef, opt_target = None, ds_project = JUndef,
      ds_projectId = JUndef, ds_apiBaseUrl = JStr ''http://localhost:4000/api'',
      ds_microsite = JUndef\<rparr> = JNull \<and>
   fr_request (fetchWidgetTheme example_fetch (\<lambda>k. None)
     (resolve_api_base_url
       \<lparr>protocol = ''https:'', hostname = ''www.example.com'', search_cache_bust = False,
        HOMESFY_WIDGET_API_BASE_URL = JUndef, rawEnvApiBaseUrl = JStr ''http://127.0.0.1:4000'',
        envDefaultProjectId = JUndef\<rparr>
       \<lparr>opt_projectId = JUndef, opt_apiBaseUrl = JUndef,
        opt_microsite = JUndef, opt_theme = JUndef, opt_target = None, ds_project = JUndef,
        ds_projectId = JUndef, ds_apiBaseUrl = JStr ''http://localhost:4000/api'',
        ds_microsite = JUndef\<rparr>)
     (JStr ''default'') True) = Some ''null/api/widget-config/default?t=5000&_=5000'' \<and>
   envApiBaseUrl
     \<lparr>protocol = ''https:'', hostname = ''www.example.com'', search_cache_bust = False,
      HOMESFY_WIDGET_API_BASE_URL = JUndef, rawEnvApiBaseUrl = JStr ''http://127.0.0.1:4000'',
      envDefaultProjectId = JUndef\<rparr> = JUndef \<and>
   resolve_api_base_url example_window
     (example_options\<lparr>opt_apiBaseUrl := JStr ''http://api.example.com/api/''\<rparr>) =
     JStr ''http://api.example.com'' \<and>
   resolve_api_base_url
     \<lparr>protocol = ''http:'', hostname = ''localhost'', search_cache_bust = False,
      HOMESFY_WIDGET_API_BASE_URL = JUndef, rawEnvApiBaseUrl = JUndef,
      envDefaultProjectId = JUndef\<rparr>
     (example_options\<lparr>opt_apiBaseUrl := JStr ''http://localhost:4000/api''\<rparr>) =
     JStr ''http://localhost:4000''"
proof -
  let ?w = "\<lparr>protocol = ''https:'', hostname = ''www.example.com'', search_cache_bust = False,
      HOMESFY_WIDGET_API_BASE_URL = JUndef, rawEnvApiBaseUrl = JStr ''http://127.0.0.1:4000'',
      envDefaultProjectId = JUndef\<rparr>"
  let ?o = "\<lparr>opt_projectId = JUndef, opt_apiBaseUrl = JUndef,
      opt_microsite = JUndef, opt_theme = JUndef, opt_target = None, ds_project = JUndef,
      ds_projectId = JUndef, ds_apiBaseUrl = JStr ''http://localhost:4000/api'',
      ds_microsite = JUndef\<rparr>"
  let ?o2 = "example_options\<lparr>opt_apiBaseUrl := JStr ''http://api.example.com/api/''\<rparr>"
  let ?w3 = "\<lparr>protocol = ''http:'', hostname = ''localhost'', search_cache_bust = False,
      HOMESFY_WIDGET_API_BASE_URL = JUndef, rawEnvApiBaseUrl = JUndef,
      envDefaultProjectId = JUndef\<rparr>"
  let ?o3 = "example_options\<lparr>opt_apiBaseUrl := JStr ''http://localhost:4000/api''\<rparr>"
  have m: "mentions_localhost (configured_api_base_url ?w ?o)"
    by code_simp
  have r: "mentions_localhost (rawEnvApiBaseUrl ?w)"
    by code_simp
  have p: "protocol ?w = ''https:''"
    by simp
  have u: "''null/api/widget-config/'' @ encodeURIComponent (to_string (JStr ''default''))
      @ ''?t='' @ show_int (now_request example_fetch) @ ''&_='' @ show_int (now_request example_fetch)
      = ''null/api/widget-config/default?t=5000&_=5000''"
  proof -
    have "encodeURIComponent ''default'' = ''default''"
      by code_simp
    moreover have "show_int (now_request example_fetch) = ''5000''"
      by (simp add: example_fetch_def show_int_def show_nat.simps digit_char_def)
    ultimately show ?thesis
      by simp
  qed
  have c2: "configured_api_base_url example_window ?o2 = JStr ''http://api.example.com/api/''"
    by (simp add: configured_api_base_url_def example_options_def js_or_def)
  have n2: "\<not> mentions_localhost (JStr ''http://api.example.com/api/'')"
    by code_simp
  have z2: "normalize_api_base_url (JStr ''http://api.example.com/api/'') =
      JStr ''http://api.example.com''"
    by code_simp
  have c3: "configured_api_base_url ?w3 ?o3 = JStr ''http://localhost:4000/api''"
    by (simp add: configured_api_base_url_def example_options_def js_or_def)
  have m3: "mentions_localhost (JStr ''http://localhost:4000/api'')"
    by code_simp
  have l3: "isActuallyLocalhost ?w3" "protocol ?w3 \<noteq> ''https:''"
    by (simp_all add: isActuallyLocalhost_def)
  have z3: "normalize_api_base_url (JStr ''http://localhost:4000/api'') =
      JStr ''http://localhost:4000''"
    by code_simp
  note g1 = api_base_url_guard [of ?w ?o example_fetch "\<lambda>k. None" "JStr ''default''"]
  have a: "resolve_api_base_url ?w ?o = JNull"
    using g1 m p by blast
  have b: "fr_request (fetchWidgetTheme example_fetch (\<lambda>k. None) (resolve_api_base_url ?w ?o)
      (JStr ''default'') True) = Some ''null/api/widget-config/default?t=5000&_=5000''"
  proof -
    have "fr_request (fetchWidgetTheme example_fetch (\<lambda>k. None) (resolve_api_base_url ?w ?o)
        (JStr ''default'') True) =
      Some (''null/api/widget-config/'' @ encodeURIComponent (to_string (JStr ''default''))
        @ ''?t='' @ show_int (now_request example_fetch) @ ''&_=''
        @ show_int (now_request example_fetch))"
      using g1 m p by blast
    then show ?thesis
      by (simp only: u)
  qed
  have c: "envApiBaseUrl ?w = JUndef"
    using g1 r p by blast
  have d: "resolve_api_base_url example_window ?o2 = JStr ''http://api.example.com''"
    using api_base_url_guard [of example_window ?o2 example_fetch "\<lambda>k. None" "JStr ''default''"]
      c2 n2 z2
    by simp
  have e: "resolve_api_base_url ?w3 ?o3 = JStr ''http://localhost:4000''"
    using api_base_url_guard [of ?w3 ?o3 example_fetch "\<lambda>k. None" "JStr ''default''"]
      c3 m3 l3 z3
    by simp
  show ?thesis
    by (intro conjI) (rule a b c d e)+
qed

section \<open>Fetching the theme config\<close>

lemma fetch_attempt_failure: "is_failure oc \<Longrightarrow> fetch_attempt oc = None"
  by (auto simp: is_failure_def fetch_attempt_def split: fetch_outcome.splits)

lemma fetch_attempt_success:
  "response_ok st \<Longrightarrow> fetch_attempt (HttpResponse st (Some d)) = Some (normalize_response d)"
  by (simp add: fetch_attempt_def)

lemma fetchWidgetTheme_requested:
  "fr_request (fetchWidgetTheme env cache api pid force) \<noteq> None \<Longrightarrow>
   fetchWidgetTheme env cache api pid force =
     (let cacheBust = (url_cache_bust env \<or> force);
          cache1 = (if cacheBust then cache(cache_key api pid := None) else cache);
          url = widget_config_url api pid (now_request env)
      in case fetch_attempt (outcome env) of
           Some d \<Rightarrow>
             \<lparr>fr_value = (if development env \<and> (d = JNull \<or> d = JUndef) then JObj [] else d),
              fr_cache = cache1(cache_key api pid \<mapsto> \<lparr>data = d, timestamp = now_store env\<rparr>),
              fr_request = Some url\<rparr>
         | None \<Rightarrow> \<lparr>fr_value = JObj [], fr_cache = cache1, fr_request = Some url\<rparr>)"
  by (cases "cache_lookup env cache (cache_key api pid) (url_cache_bust env \<or> force)")
    (simp_all add: fetchWidgetTheme_def Let_def)

lemma fetchWidgetTheme_served:
  assumes "fr_request (fetchWidgetTheme env cache api pid force) = None"
  shows "fr_cache (fetchWidgetTheme env cache api pid force) = cache"
    and "\<not> (url_cache_bust env \<or> force)"
proof -
  let ?cb = "url_cache_bust env \<or> force"
  obtain d where d: "cache_lookup env cache (cache_key api pid) ?cb = Some d"
    using assms
    by (cases "cache_lookup env cache (cache_key api pid) ?cb")
      (simp_all add: fetchWidgetTheme_def Let_def split: option.splits)
  show "fr_cache (fetchWidgetTheme env cache api pid force) = cache"
    by (simp add: fetchWidgetTheme_def Let_def d)
  show "\<not> ?cb"
    using d by (auto simp: cache_lookup_def)
qed

lemma camel_of_snake_entries:
  "camel_of_snake d = JObj
     [(''projectId'', js_or (get_prop d ''project_id'') (get_prop d ''projectId'')),
      (''agentName'', js_or (get_prop d ''agent_name'') (get_prop d ''agentName'')),
      (''avatarUrl'', js_or (get_prop d ''avatar_url'') (get_prop d ''avatarUrl'')),
      (''primaryColor'', js_or (get_prop d ''primary_color'') (get_prop d ''primaryColor'')),
      (''followupMessage'', js_or (get_prop d ''followup_message'') (get_prop d ''followupMessage'')),
      (''bhkPrompt'', js_or (get_prop d ''bhk_prompt'') (get_prop d ''bhkPrompt'')),
      (''inventoryMessage'', js_or (get_prop d ''inventory_message'') (get_prop d ''inventoryMessage'')),
      (''phonePrompt'', js_or (get_prop d ''phone_prompt'') (get_prop d ''phonePrompt'')),
      (''thankYouMessage'', js_or (get_prop d ''thank_you_message'') (get_prop d ''thankYouMessage'')),
      (''bubblePosition'', js_or (get_prop d ''bubble_position'') (get_prop d ''bubblePosition'')),
      (''autoOpenDelayMs'', js_or (get_prop d ''auto_open_delay_ms'') (get_prop d ''autoOpenDelayMs'')),
      (''welcomeMessage'', js_or (get_prop d ''welcome_message'') (get_prop d ''welcomeMessage'')),
      (''propertyInfo'',
         js_or (js_or (get_prop d ''property_info'') (get_prop d ''propertyInfo'')) (JObj []))]"
  by (simp add: camel_of_snake_def obj_assign_def)

lemma object_keys_camel_of_snake: "object_keys (camel_of_snake d) = canonical_keys"
  by (simp add: camel_of_snake_entries canonical_keys_def object_keys_def)

lemma get_prop_camel_of_snake:
  "list_all (\<lambda>(s, c). get_prop (camel_of_snake d) c = js_or (get_prop d s) (get_prop d c))
     snake_camel_fields"
  by (simp add: snake_camel_fields_def camel_of_snake_entries)

lemma get_prop_camel_of_snake_propertyInfo:
  "get_prop (camel_of_snake d) ''propertyInfo'' =
     js_or (js_or (get_prop d ''property_info'') (get_prop d ''propertyInfo'')) (JObj [])"
  by (simp add: camel_of_snake_entries)

text \<open>
  C3: when the request fails (network error, timeout, non-2xx status or a body that is
  not JSON), \<^verbatim>\<open>fetchWidgetTheme\<close> returns the empty object, and the cache is the old
  cache, less the entry of this key when the call forces a refresh: no entry is written.
  A request is made unless a fresh cache entry answers the call.
\<close>

theorem fetchWidgetTheme_failure:
  "is_failure (outcome env) \<longrightarrow>
     (fr_request (fetchWidgetTheme env cache api pid force) \<noteq> None \<longrightarrow>
        fr_value (fetchWidgetTheme env cache api pid force) = JObj []) \<and>
     (force \<longrightarrow> fr_request (fetchWidgetTheme env cache api pid force) \<noteq> None) \<and>
     fr_cache (fetchWidgetTheme env cache api pid force) =
       (if url_cache_bust env \<or> force then cache(cache_key api pid := None) else cache) \<and>
     (\<forall>k. fr_cache (fetchWidgetTheme env cache api pid force) k = None \<or>
          fr_cache (fetchWidgetTheme env cache api pid force) k = cache k)"
proof
  assume f: "is_failure (outcome env)"
  have a: "fetch_attempt (outcome env) = None"
    using f by (rule fetch_attempt_failure)
  have c: "fr_cache (fetchWidgetTheme env cache api pid force) =
       (if url_cache_bust env \<or> force then cache(cache_key api pid := None) else cache)"
  proof (cases "fr_request (fetchWidgetTheme env cache api pid force) = None")
    case True
    from fetchWidgetTheme_served [OF True] show ?thesis
      by simp
  next
    case False
    from fetchWidgetTheme_requested [OF False] show ?thesis
      by (simp add: a Let_def)
  qed
  have v: "fr_value (fetchWidgetTheme env cache api pid force) = JObj []"
    if "fr_request (fetchWidgetTheme env cache api pid force) \<noteq> None"
    using fetchWidgetTheme_requested [OF that] by (simp add: a Let_def)
  have q: "fr_request (fetchWidgetTheme env cache api pid True) \<noteq> None"
    by (simp add: fetchWidgetTheme_forced_request)
  show "(fr_request (fetchWidgetTheme env cache api pid force) \<noteq> None \<longrightarrow>
        fr_value (fetchWidgetTheme env cache api pid force) = JObj []) \<and>
     (force \<longrightarrow> fr_request (fetchWidgetTheme env cache api pid force) \<noteq> None) \<and>
     fr_cache (fetchWidgetTheme env cache api pid force) =
       (if url_cache_bust env \<or> force then cache(cache_key api pid := None) else cache) \<and>
     (\<forall>k. fr_cache (fetchWidgetTheme env cache api pid force) k = None \<or>
          fr_cache (fetchWidgetTheme env cache api pid force) k = cache k)"
    using v q by (auto simp: c)
qed

theorem fetchWidgetTheme_failure_witness:
  "is_failure (HttpResponse 500 (Some (JObj [(''agentName'', JStr ''Riya'')]))) \<and>
   fr_value (fetchWidgetTheme
     \<lparr>development = False, url_cache_bust = False, now_check = 5000, now_request = 5000,
      now_store = 5040, outcome = HttpResponse 500 (Some (JObj [(''agentName'', JStr ''Riya'')]))\<rparr>
     [''https://api.example.com:default'' \<mapsto> \<lparr>data = JObj [], timestamp = 100\<rparr>]
     (JStr ''https://api.example.com'') (JStr ''default'') True) = JObj [] \<and>
   fr_cache (fetchWidgetTheme
     \<lparr>development = False, url_cache_bust = False, now_check = 5000, now_request = 5000,
      now_store = 5040, outcome = HttpResponse 500 (Some (JObj [(''agentName'', JStr ''Riya'')]))\<rparr>
     [''https://api.example.com:default'' \<mapsto> \<lparr>data = JObj [], timestamp = 100\<rparr>]
     (JStr ''https://api.example.com'') (JStr ''default'') True)
     ''https://api.example.com:default'' = None"
proof -
  let ?env = "\<lparr>development = False, url_cache_bust = False, now_check = 5000, now_request = 5000,
      now_store = 5040, outcome = HttpResponse 500 (Some (JObj [(''agentName'', JStr ''Riya'')]))\<rparr>"
  have f: "is_failure (outcome ?env)"
    by (simp add: is_failure_def response_ok_def)
  have k: "cache_key (JStr ''https://api.example.com'') (JStr ''default'') =
      ''https://api.example.com:default''"
    by (simp add: cache_key_def)
  show ?thesis
    using fetchWidgetTheme_failure [of ?env
        "[''https://api.example.com:default'' \<mapsto> \<lparr>data = JObj [], timestamp = 100\<rparr>]"
        "JStr ''https://api.example.com''" "JStr ''default''" True] f k
    by simp
qed

text \<open>
  C4, as stated, fails: a successful response in snake_case that has no truthy
  \<^verbatim>\<open>agent_name\<close> is returned as it came, snake_case keys included.
\<close>

theorem fetchWidgetTheme_snake_case_counterexample:
  "fr_value (fetchWidgetTheme
     \<lparr>development = False, url_cache_bust = False, now_check = 5000, now_request = 5000,
      now_store = 5040,
      outcome = HttpResponse 200 (Some (JObj [(''primary_color'', JStr ''#112233''),
                                              (''welcome_message'', JStr ''Hello'')]))\<rparr>
     (\<lambda>k. None) (JStr ''https://api.example.com'') (JStr ''default'') True)
   = JObj [(''primary_color'', JStr ''#112233''), (''welcome_message'', JStr ''Hello'')] \<and>
   ''primary_color'' \<notin> set canonical_keys \<and>
   get_prop (JObj [(''primary_color'', JStr ''#112233''), (''welcome_message'', JStr ''Hello'')])
     ''primaryColor'' = JUndef"
  by (simp add: fetchWidgetTheme_def Let_def cache_lookup_def fetch_attempt_def response_ok_def
      normalize_response_def needs_conversion_def canonical_keys_def)

text \<open>
  C4, amended: a successful fetch (2xx status, JSON body) returns an object with exactly
  the thirteen canonical camelCase keys when the body has a truthy \<^verbatim>\<open>agent_name\<close> and
  no truthy \<^verbatim>\<open>agentName\<close>; each field is then the snake_case value if that is truthy
  and the camelCase value otherwise, and \<^verbatim>\<open>propertyInfo\<close> falls back to the empty
  object. Any other body is returned unchanged, whatever its keys (in a development
  build a \<^verbatim>\<open>null\<close> body comes back as the empty object).
\<close>

theorem fetchWidgetTheme_normalizes:
  "response_ok st \<and> outcome env = HttpResponse st (Some d) \<and>
   fr_request (fetchWidgetTheme env cache api pid force) \<noteq> None \<longrightarrow>
     (needs_conversion d \<longrightarrow>
        object_keys (fr_value (fetchWidgetTheme env cache api pid force)) = canonical_keys \<and>
        list_all (\<lambda>(s, c). get_prop (fr_value (fetchWidgetTheme env cache api pid force)) c =
                    js_or (get_prop d s) (get_prop d c)) snake_camel_fields \<and>
        get_prop (fr_value (fetchWidgetTheme env cache api pid force)) ''propertyInfo'' =
          js_or (js_or (get_prop d ''property_info'') (get_prop d ''propertyInfo'')) (JObj [])) \<and>
     (\<not> needs_conversion d \<longrightarrow>
        fr_value (fetchWidgetTheme env cache api pid force) =
          (if development env \<and> (d = JNull \<or> d = JUndef) then JObj [] else d))"
proof (intro impI, elim conjE)
  assume ok: "response_ok st" and oc: "outcome env = HttpResponse st (Some d)"
    and rq: "fr_request (fetchWidgetTheme env cache api pid force) \<noteq> None"
  have v: "fr_value (fetchWidgetTheme env cache api pid force) =
      (if development env \<and> (normalize_response d = JNull \<or> normalize_response d = JUndef)
       then JObj [] else normalize_response d)"
    using fetchWidgetTheme_requested [OF rq]
    by (simp add: Let_def oc fetch_attempt_success [OF ok])
  have c: "camel_of_snake d \<noteq> JNull" "camel_of_snake d \<noteq> JUndef"
    by (simp_all add: camel_of_snake_entries)
  have conv: "fr_value (fetchWidgetTheme env cache api pid force) = camel_of_snake d"
    if "needs_conversion d"
    using that v c by (simp add: normalize_response_def)
  have keep: "fr_value (fetchWidgetTheme env cache api pid force) =
      (if development env \<and> (d = JNull \<or> d = JUndef) then JObj [] else d)"
    if "\<not> needs_conversion d"
    using that v by (auto simp: normalize_response_def)
  show "(needs_conversion d \<longrightarrow>
        object_keys (fr_value (fetchWidgetTheme env cache api pid force)) = canonical_keys \<and>
        list_all (\<lambda>(s, c). get_prop (fr_value (fetchWidgetTheme env cache api pid force)) c =
                    js_or (get_prop d s) (get_prop d c)) snake_camel_fields \<and>
        get_prop (fr_value (fetchWidgetTheme env cache api pid force)) ''propertyInfo'' =
          js_or (js_or (get_prop d ''property_info'') (get_prop d ''propertyInfo'')) (JObj [])) \<and>
     (\<not> needs_conversion d \<longrightarrow>
        fr_value (fetchWidgetTheme env cache api pid force) =
          (if development env \<and> (d = JNull \<or> d = JUndef) then JObj [] else d))"
    using keep
    by (simp add: conv object_keys_camel_of_snake get_prop_camel_of_snake
        get_prop_camel_of_snake_propertyInfo)
qed

theorem fetchWidgetTheme_normalizes_witness:
  "needs_conversion (JObj [(''agent_name'', JStr ''Riya''), (''primary_color'', JStr ''#112233'')]) \<and>
   fr_value (fetchWidgetTheme
     \<lparr>development = False, url_cache_bust = False, now_check = 5000, now_request = 5000,
      now_store = 5040,
      outcome = HttpResponse 200 (Some (JObj [(''agent_name'', JStr ''Riya''),
                                              (''primary_color'', JStr ''#112233'')]))\<rparr>
     (\<lambda>k. None) (JStr ''https://api.example.com'') (JStr ''default'') True)
   = JObj [(''projectId'', JUndef), (''agentName'', JStr ''Riya''), (''avatarUrl'', JUndef),
           (''primaryColor'', JStr ''#112233''), (''followupMessage'', JUndef),
           (''bhkPrompt'', JUndef), (''inventoryMessage'', JUndef), (''phonePrompt'', JUndef),
           (''thankYouMessage'', JUndef), (''bubblePosition'', JUndef),
           (''autoOpenDelayMs'', JUndef), (''welcomeMessage'', JUndef),
           (''propertyInfo'', JObj [])] \<and>
   object_keys (fr_value (fetchWidgetTheme
     \<lparr>development = False, url_cache_bust = False, now_check = 5000, now_request = 5000,
      now_store = 5040,
      outcome = HttpResponse 200 (Some (JObj [(''agent_name'', JStr ''Riya''),
                                              (''primary_color'', JStr ''#112233'')]))\<rparr>
     (\<lambda>k. None) (JStr ''https://api.example.com'') (JStr ''default'') True)) = canonical_keys"
proof -
  let ?d = "JObj [(''agent_name'', JStr ''Riya''), (''primary_color'', JStr ''#112233'')]"
  let ?env = "\<lparr>development = False, url_cache_bust = False, now_check = 5000,
      now_request = 5000, now_store = 5040, outcome = HttpResponse 200 (Some ?d)\<rparr>"
  let ?r = "fetchWidgetTheme ?env (\<lambda>k. None) (JStr ''https://api.example.com'')
      (JStr ''default'') True"
  have n: "needs_conversion ?d"
    by (simp add: needs_conversion_def)
  have ok: "response_ok 200"
    by (simp add: response_ok_def)
  have q: "fr_request ?r \<noteq> None"
    by (simp add: fetchWidgetTheme_forced_request)
  have v: "fr_value ?r = camel_of_snake ?d"
    using fetchWidgetTheme_requested [OF q]
    by (simp add: Let_def fetch_attempt_success [OF ok] normalize_response_def n
        camel_of_snake_entries)
  have lit: "camel_of_snake ?d =
      JObj [(''projectId'', JUndef), (''agentName'', JStr ''Riya''), (''avatarUrl'', JUndef),
           (''primaryColor'', JStr ''#112233''), (''followupMessage'', JUndef),
           (''bhkPrompt'', JUndef), (''inventoryMessage'', JUndef), (''phonePrompt'', JUndef),
           (''thankYouMessage'', JUndef), (''bubblePosition'', JUndef),
           (''autoOpenDelayMs'', JUndef), (''welcomeMessage'', JUndef),
           (''propertyInfo'', JObj [])]"
    by (simp add: camel_of_snake_entries js_or_def)
  from fetchWidgetTheme_normalizes [of 200 ?env ?d "\<lambda>k. None" "JStr ''https://api.example.com''"
      "JStr ''default''" True] ok q n
  have "object_keys (fr_value ?r) = canonical_keys"
    by simp
  with n v lit show ?thesis
    by simp
qed

section \<open>The merge order of the property info\<close>

lemma map_of_obj_set_same: "map_of (obj_set kvs k v) k = Some v"
  by (induction kvs) auto

lemma obj_assign_snoc: "obj_assign base (kvs @ [(k, v)]) = obj_set (obj_assign base kvs) k v"
  by (simp add: obj_assign_def)

lemma get_prop_init_theme:
  "get_prop (init_theme remote ot detected) ''propertyInfo'' =
     (if property_detected detected then detected
      else js_or (get_prop remote ''propertyInfo'') (JObj []))"
  unfolding init_theme_def Let_def
  by (simp only: get_prop.simps append_assoc [symmetric] obj_assign_snoc map_of_obj_set_same
      option.case)

lemma get_prop_remote_theme_of: "get_prop (remote_theme_of fetched) k = get_prop fetched k"
  by (simp add: remote_theme_of_def)

lemma get_prop_init_mount_config:
  "get_prop (m_theme (init_mount_config w opts fetched detected)) ''propertyInfo'' =
     (if property_detected detected then detected
      else js_or (get_prop fetched ''propertyInfo'') (JObj []))"
  by (simp add: init_mount_config_def get_prop_init_theme get_prop_remote_theme_of)

lemma init_step_mounts:
  assumes "mountedWidgets pg = None" "marked_hosts pg = []"
    and "opt_target opts \<noteq> None \<or> se_body_at_check e" and "react_ok (se_mount e)"
  shows "fst (init_step w e (opts, Preparing) pg) = Done (Inst (next_instance pg)) \<and>
     map_option w_theme (instances (snd (init_step w e (opts, Preparing) pg)) (next_instance pg)) =
       Some (m_theme (init_mount_config w opts
         (fr_value (fetchWidgetTheme (se_fetch e) (themeCache pg) (resolve_api_base_url w opts)
            (configProjectId w (resolve_api_base_url w opts)) True))
         (se_detected e)))"
  using assms
  by (cases "opt_target opts")
     (auto simp: init_step_def Let_def mount_check_def mount_attach_def finish_init_def
      render_def startConfigPolling_def init_mount_config_def)

lemma fetchWidgetTheme_forced_value:
  assumes "response_ok st" and "outcome env = HttpResponse st (Some d)"
  shows "fr_value (fetchWidgetTheme env cache api pid True) =
     (if development env \<and> (normalize_response d = JNull \<or> normalize_response d = JUndef)
      then JObj [] else normalize_response d)"
proof -
  have "fr_request (fetchWidgetTheme env cache api pid True) \<noteq> None"
    by (simp add: fetchWidgetTheme_forced_request)
  from fetchWidgetTheme_requested [OF this] show ?thesis
    by (simp add: Let_def assms(2) fetch_attempt_success [OF assms(1)])
qed

text \<open>
  C6: in the theme that \<^verbatim>\<open>init\<close> hands to \<^verbatim>\<open>mountWidget\<close>, a non-empty detected map
  is the \<^verbatim>\<open>propertyInfo\<close>, whatever the fetched remote config and the theme option
  carry; with an empty detected map \<^verbatim>\<open>propertyInfo\<close> is the remote config's map, and
  the empty object when the remote config has none (or a falsy one). That theme is the
  one the mounted instance gets: when \<^verbatim>\<open>init\<close> reaches \<^verbatim>\<open>mountWidget\<close> on a page
  without an instance and the mount goes through, the new instance's theme is the theme
  built from the config just fetched and the detector's result.
\<close>

theorem init_theme_propertyInfo:
  "(m \<noteq> [] \<longrightarrow>
      get_prop (m_theme (init_mount_config w opts fetched (JObj m))) ''propertyInfo'' = JObj m) \<and>
   (get_prop fetched ''propertyInfo'' = JObj r \<longrightarrow>
      get_prop (m_theme (init_mount_config w opts fetched (JObj []))) ''propertyInfo'' = JObj r) \<and>
   (\<not> truthy (get_prop fetched ''propertyInfo'') \<longrightarrow>
      get_prop (m_theme (init_mount_config w opts fetched (JObj []))) ''propertyInfo'' = JObj []) \<and>
   (mountedWidgets pg = None \<and> marked_hosts pg = [] \<and>
    (opt_target opts \<noteq> None \<or> se_body_at_check e) \<and> react_ok (se_mount e) \<longrightarrow>
      fst (init_step w e (opts, Preparing) pg) = Done (Inst (next_instance pg)) \<and>
      map_option w_theme (instances (snd (init_step w e (opts, Preparing) pg)) (next_instance pg)) =
        Some (m_theme (init_mount_config w opts
          (fr_value (fetchWidgetTheme (se_fetch e) (themeCache pg) (resolve_api_base_url w opts)
             (configProjectId w (resolve_api_base_url w opts)) True))
          (se_detected e))))"
  using init_step_mounts [of pg opts e w]
  by (simp add: get_prop_init_mount_config property_detected_def object_keys_def js_or_def)

theorem init_theme_propertyInfo_witness:
  "get_prop (m_theme (init_mount_config example_window
      (example_options\<lparr>opt_theme := JObj [(''propertyInfo'', JObj [(''name'', JStr ''Override'')])]\<rparr>)
      (JObj [(''agentName'', JStr ''Riya''), (''propertyInfo'', JObj [(''name'', JStr ''Remote Towers'')])])
      (JObj [(''name'', JStr ''Page Heights'')]))) ''propertyInfo''
     = JObj [(''name'', JStr ''Page Heights'')] \<and>
   get_prop (m_theme (init_mount_config example_window
      (example_options\<lparr>opt_theme := JObj [(''propertyInfo'', JObj [(''name'', JStr ''Override'')])]\<rparr>)
      (JObj [(''agentName'', JStr ''Riya''), (''propertyInfo'', JObj [(''name'', JStr ''Remote Towers'')])])
      (JObj []))) ''propertyInfo''
     = JObj [(''name'', JStr ''Remote Towers'')] \<and>
   get_prop (m_theme (init_mount_config example_window example_options
      (JObj [(''agentName'', JStr ''Riya'')]) (JObj []))) ''propertyInfo'' = JObj [] \<and>
   fst (init_step example_window browser_ready (example_options, Preparing) empty_page) =
     Done (Inst 0) \<and>
   map_option w_theme
     (instances (snd (init_step example_window browser_ready (example_options, Preparing) empty_page)) 0) =
     Some (JObj [(''agentName'', JStr ''Riya''), (''propertyInfo'', JObj [])])"
proof -
  let ?o = "example_options\<lparr>opt_theme := JObj [(''propertyInfo'', JObj [(''name'', JStr ''Override'')])]\<rparr>"
  let ?f = "JObj [(''agentName'', JStr ''Riya''), (''propertyInfo'', JObj [(''name'', JStr ''Remote Towers'')])]"
  have h: "mountedWidgets empty_page = None" "marked_hosts empty_page = []"
    "se_body_at_check browser_ready" "react_ok (se_mount browser_ready)"
    "next_instance empty_page = 0"
    by (simp_all add: empty_page_def browser_ready_def)
  have v: "m_theme (init_mount_config example_window example_options
      (fr_value (fetchWidgetTheme (se_fetch browser_ready) (themeCache empty_page)
         (resolve_api_base_url example_window example_options)
         (configProjectId example_window (resolve_api_base_url example_window example_options))
         True))
      (se_detected browser_ready)) = JObj [(''agentName'', JStr ''Riya''), (''propertyInfo'', JObj [])]"
  proof -
    have ok: "response_ok 200"
      by (simp add: response_ok_def)
    have sf: "se_fetch browser_ready = example_fetch" "se_detected browser_ready = JObj []"
      by (simp_all add: browser_ready_def)
    have oc: "outcome example_fetch =
        HttpResponse 200 (Some (JObj [(''agentName'', JStr ''Riya'')]))"
      by (simp add: example_fetch_def)
    have dv: "\<not> development example_fetch"
      by (simp add: example_fetch_def)
    have nr: "normalize_response (JObj [(''agentName'', JStr ''Riya'')]) =
        JObj [(''agentName'', JStr ''Riya'')]"
      by (simp add: normalize_response_def needs_conversion_def)
    show ?thesis
      by (simp add: sf fetchWidgetTheme_forced_value [OF ok oc] dv nr init_mount_config_def
          init_theme_def remote_theme_of_def example_options_def js_or_def
          property_detected_def object_keys_def obj_assign_def Let_def)
  qed
  show ?thesis
    using init_theme_propertyInfo [of "[(''name'', JStr ''Page Heights'')]" example_window ?o ?f
        "[(''name'', JStr ''Remote Towers'')]" empty_page browser_ready]
      init_theme_propertyInfo [of "[]" example_window example_options
        "JObj [(''agentName'', JStr ''Riya'')]" "[]" empty_page browser_ready]
      h v
    by simp
qed

section \<open>The singleton guard\<close>

lemma same_guard_state_refl: "same_guard_state pg pg"
  by (simp add: same_guard_state_def)

lemma same_guard_state_trans:
  "same_guard_state a b \<Longrightarrow> same_guard_state b c \<Longrightarrow> same_guard_state a c"
  by (simp add: same_guard_state_def)

lemma same_guard_state_cache: "same_guard_state pg (pg\<lparr>themeCache := c\<rparr>)"
  by (simp add: same_guard_state_def)

lemma render_guard: "same_guard_state pg (render i pg)"
  by (simp add: render_def same_guard_state_def split: option.splits)

lemma updateTheme_guard: "same_guard_state pg (updateTheme i t pg)"
  by (simp add: updateTheme_def render_def same_guard_state_def split: option.splits)

lemma updateProjectId_guard: "same_guard_state pg (updateProjectId i p pg)"
  by (simp add: updateProjectId_def render_def same_guard_state_def split: option.splits)

lemma startConfigPolling_guard: "same_guard_state pg (startConfigPolling i pg)"
  by (simp add: startConfigPolling_def same_guard_state_def split: option.splits)

lemma apply_polled_theme_guard: "same_guard_state pg (apply_polled_theme i t pg)"
  by (simp add: apply_polled_theme_def updateTheme_guard same_guard_state_refl
      split: option.splits)

lemma poll_tick_guard: "same_guard_state pg (poll_tick w fenv i pg)"
  by (auto simp: poll_tick_def Let_def same_guard_state_refl split: option.splits
      intro: same_guard_state_trans [OF same_guard_state_cache apply_polled_theme_guard])

lemma on_config_updated_guard: "same_guard_state pg (on_config_updated w fenv i pg)"
  by (auto simp: on_config_updated_def Let_def same_guard_state_refl same_guard_state_cache
      split: option.splits
      intro: same_guard_state_trans [OF same_guard_state_cache updateTheme_guard])

lemma mount_check_Some:
  assumes "mount_check cfg pg = Some (r, pg')"
  shows "same_guard_state pg pg'"
    and "mountedWidgets pg = Some k \<Longrightarrow> r = Inst k"
    and "mountedWidgets pg = None \<Longrightarrow> r = NoOpMount \<and> pg' = pg \<and> marked_hosts pg \<noteq> []"
proof -
  show "same_guard_state pg pg'"
  proof (cases "mountedWidgets pg")
    case None
    with assms show ?thesis
      by (auto simp: mount_check_def same_guard_state_refl split: if_splits)
  next
    case (Some x)
    have "same_guard_state pg
        (updateProjectId x (m_projectId cfg)
           (if truthy (m_theme cfg) then updateTheme x (m_theme cfg) pg else pg))"
      by (rule same_guard_state_trans [OF _ updateProjectId_guard])
        (simp add: updateTheme_guard same_guard_state_refl)
    with assms Some show ?thesis
      by (auto simp: mount_check_def)
  qed
  show "mountedWidgets pg = Some k \<Longrightarrow> r = Inst k"
    using assms by (auto simp: mount_check_def)
  show "mountedWidgets pg = None \<Longrightarrow> r = NoOpMount \<and> pg' = pg \<and> marked_hosts pg \<noteq> []"
    using assms by (auto simp: mount_check_def split: if_splits)
qed

lemma mount_check_None:
  "mount_check cfg pg = None \<Longrightarrow> mountedWidgets pg = None \<and> marked_hosts pg = []"
  by (auto simp: mount_check_def split: option.splits if_splits)

lemma render_fields:
  "marked_hosts (render i p) = marked_hosts p"
  "mountedWidgets (render i p) = mountedWidgets p"
  "initInProgress (render i p) = initInProgress p"
  using render_guard [of p i] by (simp_all add: same_guard_state_def)

lemma startConfigPolling_fields:
  "marked_hosts (startConfigPolling i p) = marked_hosts p"
  "mountedWidgets (startConfigPolling i p) = mountedWidgets p"
  "initInProgress (startConfigPolling i p) = initInProgress p"
  using startConfigPolling_guard [of p i] by (simp_all add: same_guard_state_def)

lemma mount_attach_flag: "initInProgress (snd (mount_attach env cfg pg)) = initInProgress pg"
  by (simp add: mount_attach_def Let_def render_fields startConfigPolling_fields
      split: option.splits)

lemma mount_attach_hosts:
  "marked_hosts (snd (mount_attach env cfg pg)) = marked_hosts pg \<or>
   (\<exists>h. marked_hosts (snd (mount_attach env cfg pg)) = marked_hosts pg @ [h])"
  by (simp add: mount_attach_def Let_def render_fields startConfigPolling_fields
      split: option.splits)

lemma mount_attach_Inl:
  "fst (mount_attach env cfg pg) = Inl err \<Longrightarrow>
   mountedWidgets (snd (mount_attach env cfg pg)) = mountedWidgets pg"
  by (simp add: mount_attach_def Let_def render_fields startConfigPolling_fields
      split: option.splits if_splits)

lemma mount_attach_Inr:
  "fst (mount_attach env cfg pg) = Inr r \<Longrightarrow>
   \<exists>k. r = Inst k \<and> mountedWidgets (snd (mount_attach env cfg pg)) = Some k"
  by (auto simp: mount_attach_def Let_def render_fields startConfigPolling_fields
      split: option.splits if_splits)

lemma filter_update_length:
  "i < length xs \<Longrightarrow>
   length (filter P (xs[i := y])) + (if P (xs ! i) then 1 else 0) =
   length (filter P xs) + (if P y then 1 else 0)"
proof -
  assume i: "i < length xs"
  have a: "xs = take i xs @ xs ! i # drop (Suc i) xs"
    using i by (rule id_take_nth_drop)
  have b: "xs[i := y] = take i xs @ y # drop (Suc i) xs"
    using i by (rule upd_conv_take_nth_drop)
  have "length (filter P xs) =
      length (filter P (take i xs)) + (if P (xs ! i) then 1 else 0) +
      length (filter P (drop (Suc i) xs))"
    by (subst a) simp
  moreover have "length (filter P (xs[i := y])) =
      length (filter P (take i xs)) + (if P y then 1 else 0) +
      length (filter P (drop (Suc i) xs))"
    by (subst b) simp
  ultimately show ?thesis by simp
qed

lemma filter_length_mono:
  "(\<And>x. Q x \<Longrightarrow> P x) \<Longrightarrow> length (filter Q xs) \<le> length (filter P xs)"
  by (induction xs) auto

lemma filter_nth_pos: "i < length xs \<Longrightarrow> P (xs ! i) \<Longrightarrow> 0 < length (filter P xs)"
  by (metis filter_empty_conv length_greater_0_conv nth_mem)

lemma is_body_wait_active: "is_body_wait pc \<Longrightarrow> is_active pc"
  by (cases pc) (simp_all add: is_body_wait_def is_active_def)

lemma resolved_instances_update:
  "set (resolved_instances (ts[i := (opts, pc')])) \<subseteq>
   set (resolved_instances ts) \<union> (case pc' of Done (Inst k) \<Rightarrow> {k} | _ \<Rightarrow> {})"
proof -
  have "set (ts[i := (opts, pc')]) \<subseteq> insert (opts, pc') (set ts)"
    by (rule set_update_subset_insert)
  then show ?thesis
    by (auto simp: resolved_instances_def split: init_pc.splits instance_ref.splits)
qed

lemma resolved_instances_nth:
  "i < length ts \<Longrightarrow> snd (ts ! i) = Done (Inst k) \<Longrightarrow> k \<in> set (resolved_instances ts)"
proof -
  assume i: "i < length ts" and d: "snd (ts ! i) = Done (Inst k)"
  from i have "ts ! i \<in> set ts" by simp
  with d show ?thesis
    by (auto simp: resolved_instances_def intro!: bexI [of _ "ts ! i"])
qed

lemma resolved_instances_append:
  "resolved_instances (ts @ [(opts, Fresh)]) = resolved_instances ts"
  by (simp add: resolved_instances_def)

text \<open>What one step of a call does to the guard state, by where the call stands.\<close>

lemma init_step_cases:
  fixes w e task pg
  defines "pc \<equiv> snd task"
    and "pc' \<equiv> fst (init_step w e task pg)"
    and "pg' \<equiv> snd (init_step w e task pg)"
  obtains
    (stay) "\<not> is_active pc" "\<not> is_active pc'" "same_guard_state pg pg'"
      "\<And>k. pc' = Done (Inst k) \<Longrightarrow> pc = Done (Inst k) \<or> mountedWidgets pg = Some k"
  | (claim) "\<not> is_active pc" "pc' = Preparing" "\<not> initInProgress pg" "mountedWidgets pg = None"
      "marked_hosts pg' = marked_hosts pg" "mountedWidgets pg' = None" "initInProgress pg'"
  | (wait_body) "is_active pc" "is_body_wait pc'" "same_guard_state pg pg'" "marked_hosts pg = []"
  | (resolve) r where "is_active pc" "pc' = Done r" "\<not> initInProgress pg'"
      "marked_hosts pg' = marked_hosts pg \<or>
       (\<exists>h. marked_hosts pg' = marked_hosts pg @ [h]) \<and> (pc = Preparing \<longrightarrow> marked_hosts pg = [])"
      "\<And>k. r = Inst k \<Longrightarrow> mountedWidgets pg' = Some k"
      "(\<forall>k. r \<noteq> Inst k) \<Longrightarrow> mountedWidgets pg' = mountedWidgets pg"
proof (cases pc)
  case Fresh
  show ?thesis
  proof (cases "mountedWidgets pg")
    case (Some x)
    have "pc' = Done (Inst x)" "pg' = updateProjectId x (resolve_project_id w (fst task)) pg"
      using Fresh Some by (simp_all add: pc_def pc'_def pg'_def init_step_def)
    then show ?thesis
      using Fresh Some updateProjectId_guard by (intro stay) (simp_all add: is_active_def)
  next
    case None
    show ?thesis
    proof (cases "initInProgress pg")
      case True
      have "pc' = Waiting" "pg' = pg"
        using Fresh None True by (simp_all add: pc_def pc'_def pg'_def init_step_def)
      then show ?thesis
        using Fresh by (intro stay) (simp_all add: is_active_def same_guard_state_refl)
    next
      case False
      have "pc' = Preparing" "pg' = pg\<lparr>initInProgress := True\<rparr>"
        using Fresh None False
        by (simp_all add: pc_def pc'_def pg'_def init_step_def claim_init_def)
      then show ?thesis
        using Fresh None False by (intro claim) (simp_all add: is_active_def)
    qed
  qed
next
  case Waiting
  show ?thesis
  proof (cases "initInProgress pg")
    case True
    have "pc' = Waiting" "pg' = pg"
      using Waiting True by (simp_all add: pc_def pc'_def pg'_def init_step_def)
    then show ?thesis
      using Waiting by (intro stay) (simp_all add: is_active_def same_guard_state_refl)
  next
    case False
    show ?thesis
    proof (cases "mountedWidgets pg")
      case (Some x)
      have "pc' = Done (Inst x)" "pg' = pg"
        using Waiting Some False by (simp_all add: pc_def pc'_def pg'_def init_step_def)
      then show ?thesis
        using Waiting Some by (intro stay) (simp_all add: is_active_def same_guard_state_refl)
    next
      case None
      have "pc' = Preparing" "pg' = pg\<lparr>initInProgress := True\<rparr>"
        using Waiting None False
        by (simp_all add: pc_def pc'_def pg'_def init_step_def claim_init_def)
      then show ?thesis
        using Waiting None False by (intro claim) (simp_all add: is_active_def)
    qed
  qed
next
  case Preparing
  define api where "api = resolve_api_base_url w (fst task)"
  define fr where
    "fr = fetchWidgetTheme (se_fetch e) (themeCache pg) api (configProjectId w api) True"
  define pg1 where "pg1 = pg\<lparr>themeCache := fr_cache fr\<rparr>"
  define cfg where "cfg = init_mount_config w (fst task) (fr_value fr) (se_detected e)"
  have step: "init_step w e task pg =
      (case mount_check cfg pg1 of
         Some (r, pg2) \<Rightarrow> finish_init (Inr r, pg2)
       | None \<Rightarrow>
           if m_target cfg = None \<and> \<not> se_body_at_check e then (BodyWait cfg, pg1)
           else finish_init (mount_attach ((se_mount e)\<lparr>body_present := True\<rparr>) cfg pg1))"
    using Preparing
    by (auto simp: pc_def init_step_def Let_def api_def fr_def pg1_def cfg_def
        split: option.split)
  have g1: "same_guard_state pg pg1"
    by (simp add: pg1_def same_guard_state_def)
  have act: "is_active pc"
    using Preparing by (simp add: is_active_def)
  show ?thesis
  proof (cases "mount_check cfg pg1")
    case (Some a)
    obtain r pg2 where a: "a = (r, pg2)" by (cases a)
    have g2: "same_guard_state pg1 pg2"
      using mount_check_Some(1) [of cfg pg1 r pg2] Some a by simp
    have res: "pc' = Done r" "pg' = pg2\<lparr>initInProgress := False\<rparr>"
      using Some a by (simp_all add: pc'_def pg'_def step finish_init_def)
    have reg: "mountedWidgets pg' = mountedWidgets pg" "marked_hosts pg' = marked_hosts pg"
      using g1 g2 res by (simp_all add: same_guard_state_def)
    have k: "mountedWidgets pg' = Some k" if "r = Inst k" for k
    proof (cases "mountedWidgets pg1")
      case None
      with mount_check_Some(3) [of cfg pg1 r pg2] Some a that show ?thesis by simp
    next
      case (Some x)
      with mount_check_Some(2) [of cfg pg1 r pg2 x] \<open>mount_check cfg pg1 = Some a\<close> a that
      have "x = k" by simp
      with Some g1 reg show ?thesis by (simp add: same_guard_state_def)
    qed
    show ?thesis
      using act res reg k by (intro resolve [of r]) simp_all
  next
    case None
    have empty: "mountedWidgets pg1 = None" "marked_hosts pg1 = []"
      using mount_check_None [OF None] by simp_all
    then have empty0: "mountedWidgets pg = None" "marked_hosts pg = []"
      using g1 by (simp_all add: same_guard_state_def)
    show ?thesis
    proof (cases "m_target cfg = None \<and> \<not> se_body_at_check e")
      case True
      have "pc' = BodyWait cfg" "pg' = pg1"
        using None True by (simp_all add: pc'_def pg'_def step)
      then show ?thesis
        using act g1 empty0 by (intro wait_body) (simp_all add: is_body_wait_def)
    next
      case False
      define env where "env = (se_mount e)\<lparr>body_present := True\<rparr>"
      define out where "out = mount_attach env cfg pg1"
      have fin: "init_step w e task pg = finish_init out"
        using None False by (auto simp: step out_def env_def)
      have flag: "\<not> initInProgress pg'"
        by (simp add: pg'_def fin finish_init_def split: sum.splits)
      have pgs: "pg' = (snd out)\<lparr>initInProgress := False\<rparr>"
        by (simp add: pg'_def fin finish_init_def split: sum.splits)
      have hosts: "marked_hosts pg' = marked_hosts pg \<or>
          (\<exists>h. marked_hosts pg' = marked_hosts pg @ [h])"
        using mount_attach_hosts [of env cfg pg1] empty empty0 by (simp add: pgs out_def)
      show ?thesis
      proof (cases "fst out")
        case (Inl err)
        have "pc' = Done NoOpInit"
          using Inl by (simp add: pc'_def fin finish_init_def)
        moreover have "mountedWidgets pg' = mountedWidgets pg"
          using mount_attach_Inl [of env cfg pg1 err] Inl empty empty0
          by (simp add: pgs out_def)
        ultimately show ?thesis
          using act flag hosts empty0 by (intro resolve [of NoOpInit]) simp_all
      next
        case (Inr r)
        have "pc' = Done r"
          using Inr by (simp add: pc'_def fin finish_init_def)
        moreover obtain k where "r = Inst k" "mountedWidgets pg' = Some k"
          using mount_attach_Inr [of env cfg pg1 r] Inr by (auto simp: pgs out_def)
        ultimately show ?thesis
          using act flag hosts empty0 by (intro resolve [of r]) auto
      qed
    qed
  qed
next
  case (BodyWait cfg)
  define out where "out = mount_attach (se_mount e) cfg pg"
  have fin: "init_step w e task pg = finish_init out"
    using BodyWait by (simp add: pc_def init_step_def out_def)
  have act: "is_active pc"
    using BodyWait by (simp add: is_active_def)
  have flag: "\<not> initInProgress pg'"
    by (simp add: pg'_def fin finish_init_def split: sum.splits)
  have pgs: "pg' = (snd out)\<lparr>initInProgress := False\<rparr>"
    by (simp add: pg'_def fin finish_init_def split: sum.splits)
  have hosts: "marked_hosts pg' = marked_hosts pg \<or>
      (\<exists>h. marked_hosts pg' = marked_hosts pg @ [h])"
    using mount_attach_hosts [of "se_mount e" cfg pg] by (simp add: pgs out_def)
  show ?thesis
  proof (cases "fst out")
    case (Inl err)
    have "pc' = Done NoOpInit"
      using Inl by (simp add: pc'_def fin finish_init_def)
    moreover have "mountedWidgets pg' = mountedWidgets pg"
      using mount_attach_Inl [of "se_mount e" cfg pg err] Inl by (simp add: pgs out_def)
    ultimately show ?thesis
      using act flag hosts BodyWait by (intro resolve [of NoOpInit]) simp_all
  next
    case (Inr r)
    have "pc' = Done r"
      using Inr by (simp add: pc'_def fin finish_init_def)
    moreover obtain k where "r = Inst k" "mountedWidgets pg' = Some k"
      using mount_attach_Inr [of "se_mount e" cfg pg r] Inr by (auto simp: pgs out_def)
    ultimately show ?thesis
      using act flag hosts BodyWait by (intro resolve [of r]) auto
  qed
next
  case (Done r)
  have "pc' = Done r" "pg' = pg"
    using Done by (simp_all add: pc_def pc'_def pg'_def init_step_def)
  then show ?thesis
    using Done by (intro stay) (simp_all add: is_active_def same_guard_state_refl)
qed

lemma page_invariant_iff:
  "page_invariant (pg, ts) \<longleftrightarrow>
     length (marked_hosts pg) \<le> 1 \<and>
     length (filter is_active (map snd ts)) \<le> 1 \<and>
     (0 < length (filter is_active (map snd ts)) \<longrightarrow>
        initInProgress pg \<and> mountedWidgets pg = None) \<and>
     (0 < length (filter is_body_wait (map snd ts)) \<longrightarrow> marked_hosts pg = []) \<and>
     (\<forall>k \<in> set (resolved_instances ts). mountedWidgets pg = Some k)"
  by (simp add: page_invariant_def Let_def list_all_iff del: length_filter_map)

lemma page_invariant_empty: "page_invariant (empty_page, [])"
  by (simp add: page_invariant_iff empty_page_def resolved_instances_def)

lemma page_invariant_call:
  "page_invariant (pg, ts) \<Longrightarrow> page_invariant (pg, ts @ [(opts, Fresh)])"
  by (simp add: page_invariant_iff resolved_instances_append is_active_def is_body_wait_def
      del: length_filter_map)

lemma page_invariant_same_guard:
  "page_invariant (pg, ts) \<Longrightarrow> same_guard_state pg pg' \<Longrightarrow> page_invariant (pg', ts)"
  by (simp add: page_invariant_iff same_guard_state_def)

lemma page_invariant_step:
  assumes inv: "page_invariant (pg, ts)" and i: "i < length ts"
  shows "page_invariant
           (snd (init_step w e (ts ! i) pg),
            ts[i := (fst (ts ! i), fst (init_step w e (ts ! i) pg))])"
proof -
  define pcs where "pcs = map snd ts"
  define pc where "pc = snd (ts ! i)"
  define pc' where "pc' = fst (init_step w e (ts ! i) pg)"
  define pg' where "pg' = snd (init_step w e (ts ! i) pg)"
  define ts' where "ts' = ts[i := (fst (ts ! i), pc')]"
  define nA where "nA = length (filter is_active pcs)"
  define nB where "nB = length (filter is_body_wait pcs)"
  define nA' where "nA' = length (filter is_active (map snd ts'))"
  define nB' where "nB' = length (filter is_body_wait (map snd ts'))"
  have ip: "i < length pcs" and pci: "pcs ! i = pc"
    using i by (simp_all add: pcs_def pc_def)
  have pcs': "map snd ts' = pcs[i := pc']"
    by (simp add: ts'_def pcs_def map_update)
  have cA: "nA' + (if is_active pc then 1 else 0) = nA + (if is_active pc' then 1 else 0)"
    using filter_update_length [OF ip, of is_active pc']
    by (simp add: nA_def nA'_def pcs' pci del: length_filter_map)
  have cB: "nB' + (if is_body_wait pc then 1 else 0) = nB + (if is_body_wait pc' then 1 else 0)"
    using filter_update_length [OF ip, of is_body_wait pc']
    by (simp add: nB_def nB'_def pcs' pci del: length_filter_map)
  have le: "nB \<le> nA" and le': "nB' \<le> nA'"
    by (simp_all add: nA_def nB_def nA'_def nB'_def filter_length_mono is_body_wait_active
        del: length_filter_map)
  have posA: "0 < nA" if "is_active pc"
    using filter_nth_pos [OF ip, of is_active] that by (simp add: nA_def pci)
  have posB: "0 < nB" if "is_body_wait pc"
    using filter_nth_pos [OF ip, of is_body_wait] that by (simp add: nB_def pci)
  have res: "set (resolved_instances ts') \<subseteq>
      set (resolved_instances ts) \<union> (case pc' of Done (Inst k) \<Rightarrow> {k} | _ \<Rightarrow> {})"
    unfolding ts'_def by (rule resolved_instances_update)
  have old: "k \<in> set (resolved_instances ts)" if "pc = Done (Inst k)" for k
    using resolved_instances_nth [OF i, of k] that by (simp add: pc_def)
  from inv have I1: "length (marked_hosts pg) \<le> 1" and I2: "nA \<le> 1"
    and I3: "0 < nA \<Longrightarrow> initInProgress pg \<and> mountedWidgets pg = None"
    and I4: "0 < nB \<Longrightarrow> marked_hosts pg = []"
    and I5: "\<And>k. k \<in> set (resolved_instances ts) \<Longrightarrow> mountedWidgets pg = Some k"
    by (simp_all add: page_invariant_iff nA_def nB_def pcs_def del: length_filter_map)
  have goal: "length (marked_hosts pg') \<le> 1 \<and> nA' \<le> 1 \<and>
      (0 < nA' \<longrightarrow> initInProgress pg' \<and> mountedWidgets pg' = None) \<and>
      (0 < nB' \<longrightarrow> marked_hosts pg' = []) \<and>
      (\<forall>k \<in> set (resolved_instances ts'). mountedWidgets pg' = Some k)"
  proof (cases rule: init_step_cases [of "ts ! i" w e pg])
    case stay
    then have na: "\<not> is_active pc" "\<not> is_active pc'"
      and g: "same_guard_state pg pg'"
      and d: "\<And>k. pc' = Done (Inst k) \<Longrightarrow> pc = Done (Inst k) \<or> mountedWidgets pg = Some k"
      by (simp_all add: pc_def pc'_def pg'_def)
    from na have nb: "\<not> is_body_wait pc" "\<not> is_body_wait pc'"
      using is_body_wait_active by blast+
    have eqA: "nA' = nA" and eqB: "nB' = nB"
      using cA cB na nb by simp_all
    have r: "mountedWidgets pg = Some k" if "k \<in> set (resolved_instances ts')" for k
    proof (cases "k \<in> set (resolved_instances ts)")
      case True
      then show ?thesis by (rule I5)
    next
      case False
      with res that have "pc' = Done (Inst k)"
        by (auto split: init_pc.splits instance_ref.splits)
      with d [of k] old [of k] I5 [of k] show ?thesis by blast
    qed
    then have "\<forall>k \<in> set (resolved_instances ts'). mountedWidgets pg = Some k"
      by blast
    then show ?thesis
      using I1 I2 I3 I4 g by (simp add: eqA eqB same_guard_state_def)
  next
    case claim
    then have na: "\<not> is_active pc" and p: "pc' = Preparing"
      and f: "\<not> initInProgress pg" and m: "mountedWidgets pg = None"
      and h: "marked_hosts pg' = marked_hosts pg"
      and m': "mountedWidgets pg' = None" and f': "initInProgress pg'"
      by (simp_all add: pc_def pc'_def pg'_def)
    have zero: "nA = 0"
      using I3 f by (cases "nA") simp_all
    have act': "is_active pc'" "\<not> is_body_wait pc'"
      using p by (simp_all add: is_active_def is_body_wait_def)
    have nb: "\<not> is_body_wait pc"
      using na is_body_wait_active by blast
    have eqA: "nA' = 1" and eqB: "nB' = 0"
      using cA cB na nb act' zero le by simp_all
    have r: "mountedWidgets pg' = Some k" if "k \<in> set (resolved_instances ts')" for k
    proof -
      from res that p have "k \<in> set (resolved_instances ts)" by auto
      from I5 [OF this] m show ?thesis by simp
    qed
    then have "\<forall>k \<in> set (resolved_instances ts'). mountedWidgets pg' = Some k"
      by blast
    then show ?thesis
      using I1 h m' f' by (simp add: eqA eqB)
  next
    case wait_body
    then have a: "is_active pc" and b: "is_body_wait pc'"
      and g: "same_guard_state pg pg'" and e: "marked_hosts pg = []"
      by (simp_all add: pc_def pc'_def pg'_def)
    have a': "is_active pc'"
      using b by (rule is_body_wait_active)
    have eqA: "nA' = nA"
      using cA a a' by simp
    have r: "mountedWidgets pg = Some k" if "k \<in> set (resolved_instances ts')" for k
    proof -
      from res that b have "k \<in> set (resolved_instances ts)"
        by (auto simp: is_body_wait_def split: init_pc.splits)
      then show ?thesis by (rule I5)
    qed
    then have "\<forall>k \<in> set (resolved_instances ts'). mountedWidgets pg = Some k"
      by blast
    then show ?thesis
      using I1 I2 I3 g e by (simp add: eqA same_guard_state_def)
  next
    case (resolve r)
    then have a: "is_active pc" and p: "pc' = Done r" and f': "\<not> initInProgress pg'"
      and h: "marked_hosts pg' = marked_hosts pg \<or>
        (\<exists>h. marked_hosts pg' = marked_hosts pg @ [h]) \<and>
        (pc = Preparing \<longrightarrow> marked_hosts pg = [])"
      and k1: "\<And>k. r = Inst k \<Longrightarrow> mountedWidgets pg' = Some k"
      and k2: "(\<forall>k. r \<noteq> Inst k) \<Longrightarrow> mountedWidgets pg' = mountedWidgets pg"
      by (simp_all add: pc_def pc'_def pg'_def)
    have na': "\<not> is_active pc'"
      using p by (simp add: is_active_def)
    have one: "nA = 1"
      using posA [OF a] I2 by simp
    have eqA: "nA' = 0"
      using cA a na' one by simp
    have eqB: "nB' = 0"
      using le' eqA by simp
    have none: "mountedWidgets pg = None"
      using I3 one by simp
    have nores: "resolved_instances ts = []"
    proof (cases "resolved_instances ts")
      case Nil
      then show ?thesis .
    next
      case (Cons x xs)
      then have "x \<in> set (resolved_instances ts)" by simp
      from I5 [OF this] none show ?thesis by simp
    qed
    have hosts: "length (marked_hosts pg') \<le> 1"
    proof (cases "marked_hosts pg' = marked_hosts pg")
      case True
      with I1 show ?thesis by simp
    next
      case False
      with h obtain x where x: "marked_hosts pg' = marked_hosts pg @ [x]"
        and pr: "pc = Preparing \<longrightarrow> marked_hosts pg = []"
        by blast
      have "marked_hosts pg = []"
      proof (cases "is_body_wait pc")
        case True
        from I4 [OF posB [OF True]] show ?thesis .
      next
        case False
        with a have "pc = Preparing"
          by (cases pc) (simp_all add: is_active_def is_body_wait_def)
        with pr show ?thesis by simp
      qed
      with x show ?thesis by simp
    qed
    have rr: "mountedWidgets pg' = Some k" if "k \<in> set (resolved_instances ts')" for k
    proof -
      from res that nores p have "r = Inst k"
        by (auto split: instance_ref.splits)
      then show ?thesis by (rule k1)
    qed
    then have "\<forall>k \<in> set (resolved_instances ts'). mountedWidgets pg' = Some k"
      by blast
    then show ?thesis
      using hosts by (simp add: eqA eqB)
  qed
  then show ?thesis
    by (simp add: page_invariant_iff nA'_def nB'_def ts'_def pc'_def pg'_def
        del: length_filter_map)
qed

lemma page_invariant_action:
  "page_invariant st \<Longrightarrow> page_invariant (apply_action w a st)"
proof -
  assume inv: "page_invariant st"
  obtain pg ts where st: "st = (pg, ts)" by (cases st)
  show ?thesis
  proof (cases a)
    case (Call opts)
    with inv st show ?thesis
      by (simp add: apply_action_def page_invariant_call)
  next
    case (Step i e)
    with inv st show ?thesis
      by (simp add: apply_action_def page_invariant_step)
  next
    case (Tick i fenv)
    with inv st show ?thesis
      by (auto simp: apply_action_def
          intro: page_invariant_same_guard [OF _ poll_tick_guard])
  next
    case (Notify i fenv)
    with inv st show ?thesis
      by (auto simp: apply_action_def
          intro: page_invariant_same_guard [OF _ on_config_updated_guard])
  qed
qed

lemma page_invariant_run: "page_invariant (run w as)"
proof (induction as rule: rev_induct)
  case Nil
  show ?case by (simp add: run_def page_invariant_empty)
next
  case (snoc a as)
  then show ?case by (simp add: run_def page_invariant_action)
qed

section \<open>Creating a lead\<close>





















text \<open>
  C10: a request whose microsite is missing from the body or does not survive
  \<^verbatim>\<open>sanitizeMicrosite\<close> is answered 400 with the message
  \<^verbatim>\<open>Missing or invalid microsite\<close>, whatever its BHK preference and phone are, and the
  lead, chat-session and event stores are left as they were.
\<close>

theorem post_lead_requires_microsite:
  "\<not> truthy (sanitizeMicrosite U (get_prop b ''microsite'')) \<longrightarrow>
     post_lead U senv st b =
       (\<lparr>status = 400, body = JObj [(''message'', JStr ''Missing or invalid microsite'')]\<rparr>, st)"
  by (simp add: post_lead_def Let_def message_body_def)

theorem post_lead_requires_microsite_witness:
  "get_prop (JObj [(''phone'', JStr ''12345''), (''bhkType'', JStr ''studio'')]) ''microsite'' = JUndef \<and>
   \<not> truthy (sanitizeMicrosite example_utils JUndef) \<and>
   post_lead example_utils working_stores empty_stores
     (JObj [(''phone'', JStr ''12345''), (''bhkType'', JStr ''studio'')]) =
     (\<lparr>status = 400, body = JObj [(''message'', JStr ''Missing or invalid microsite'')]\<rparr>,
      empty_stores)"
proof -
  have f: "\<not> truthy (sanitizeMicrosite example_utils JUndef)"
    by (simp add: example_utils_def)
  have g: "get_prop (JObj [(''phone'', JStr ''12345''), (''bhkType'', JStr ''studio'')])
      ''microsite'' = JUndef"
    by simp
  show ?thesis
    using post_lead_requires_microsite [of example_utils
        "JObj [(''phone'', JStr ''12345''), (''bhkType'', JStr ''studio'')]"
        working_stores empty_stores] f g
    by simp
qed

end
